theory Spec2Isabelle
  imports Complex_Main
begin

section \<open>Values returned by the Management API\<close>

text \<open>
  Every response handled by \<^verbatim>\<open>management_v3_reference.py\<close> is the result of
  deserialising a JSON document: a Python \<^verbatim>\<open>dict\<close>, \<^verbatim>\<open>list\<close>, \<^verbatim>\<open>str\<close>, \<^verbatim>\<open>int\<close>,
  \<^verbatim>\<open>float\<close>, \<^verbatim>\<open>bool\<close> or \<^verbatim>\<open>None\<close>. The sample never looks at a type tag; it only
  calls \<^verbatim>\<open>.get\<close>, tests truthiness, iterates and indexes, so the model keeps
  the values dynamically typed. A dictionary is an association list read with
  \<^const>\<open>map_of\<close> (its keys are meant to be distinct; the first binding of a key
  is the one that counts); a finite float is the rational it denotes.
\<close>

datatype json =
    JNull
  | JBool bool
  | JInt int
  | JFloat rat
  | JStr string
  | JArr "json list"
  | JObj "(string \<times> json) list"

text \<open>
  The exceptions that can occur: the three raised by the service collaborator
  and caught in \<^verbatim>\<open>main\<close> (\<^verbatim>\<open>TypeError\<close> with its message, \<^verbatim>\<open>HttpError\<close> with
  \<^verbatim>\<open>resp.status\<close> and the reason, \<^verbatim>\<open>AccessTokenRefreshError\<close>), and the ones
  Python raises for a method, iteration or index that the value does not
  support.
\<close>

datatype error =
    AttributeError
  | TypeError string
  | KeyError
  | IndexError
  | HttpError int string
  | AccessTokenRefreshError

text \<open>Python's \<^verbatim>\<open>type(v).__name__\<close>, as it appears in the messages of \<^verbatim>\<open>TypeError\<close>.\<close>

fun type_name :: "json \<Rightarrow> string" where
  "type_name JNull = ''NoneType''"
| "type_name (JBool b) = ''bool''"
| "type_name (JInt n) = ''int''"
| "type_name (JFloat q) = ''float''"
| "type_name (JStr s) = ''str''"
| "type_name (JArr xs) = ''list''"
| "type_name (JObj kvs) = ''dict''"

text \<open>The message \<^verbatim>\<open>'<type>' object is not <what>\<close> of a \<^verbatim>\<open>TypeError\<close>.\<close>

definition not_supported :: "json \<Rightarrow> string \<Rightarrow> string" where
  "not_supported v what =
     [CHR 0x27] @ type_name v @ [CHR 0x27] @ '' object is not '' @ what"

text \<open>Truth value of a Python object, as tested by \<^verbatim>\<open>if v:\<close> and \<^verbatim>\<open>not v\<close>.\<close>

fun truthy :: "json \<Rightarrow> bool" where
  "truthy JNull = False"
| "truthy (JBool b) = b"
| "truthy (JInt n) = (n \<noteq> 0)"
| "truthy (JFloat q) = (q \<noteq> 0)"
| "truthy (JStr s) = (s \<noteq> [])"
| "truthy (JArr xs) = (xs \<noteq> [])"
| "truthy (JObj kvs) = (kvs \<noteq> [])"

text \<open>
  \<^verbatim>\<open>v.get(key)\<close> and \<^verbatim>\<open>v.get(key, default)\<close>: only a \<^verbatim>\<open>dict\<close> has the method;
  a missing key gives \<^verbatim>\<open>None\<close>, respectively the default.
\<close>

fun py_get_default :: "json \<Rightarrow> string \<Rightarrow> json \<Rightarrow> error + json" where
  "py_get_default (JObj kvs) key d =
     Inr (case map_of kvs key of None \<Rightarrow> d | Some v \<Rightarrow> v)"
| "py_get_default v key d = Inl AttributeError"

definition py_get :: "json \<Rightarrow> string \<Rightarrow> error + json" where
  "py_get v key = py_get_default v key JNull"

text \<open>
  The elements a \<^verbatim>\<open>for\<close> loop visits: the elements of a list, the keys of a
  dictionary, the one-character strings of a string; anything else is not
  iterable.
\<close>

fun py_iter :: "json \<Rightarrow> error + json list" where
  "py_iter (JArr xs) = Inr xs"
| "py_iter (JObj kvs) = Inr (map (\<lambda>kv. JStr (fst kv)) kvs)"
| "py_iter (JStr s) = Inr (map (\<lambda>c. JStr [c]) s)"
| "py_iter v = Inl (TypeError (not_supported v ''iterable''))"

text \<open>
  \<^verbatim>\<open>v[0]\<close>: the first element of a list or string, \<^verbatim>\<open>IndexError\<close> when it is
  empty; a dictionary built from JSON has string keys only, so the key \<^verbatim>\<open>0\<close>
  is missing; other values are not subscriptable.
\<close>

fun py_index0 :: "json \<Rightarrow> error + json" where
  "py_index0 (JArr []) = Inl IndexError"
| "py_index0 (JArr (x # xs)) = Inr x"
| "py_index0 (JStr []) = Inl IndexError"
| "py_index0 (JStr (c # cs)) = Inr (JStr [c])"
| "py_index0 (JObj kvs) = Inl KeyError"
| "py_index0 v = Inl (TypeError (not_supported v ''subscriptable''))"

section \<open>Effects: printed lines and service calls\<close>

text \<open>
  A printed line is the list of the parts of its f-string: literal text, and
  \<open>Str v\<close> for the text \<^verbatim>\<open>str(v)\<close> of an interpolated value. \<open>[]\<close> is the empty
  line of \<^verbatim>\<open>print()\<close>.
\<close>

datatype part = Lit string | Str json

type_synonym line = "part list"

text \<open>
  The five read operations of the service object, with the arguments the
  sample passes. A service answers each request with a response or raises.
\<close>

datatype request =
    AccountsList
  | WebpropertiesList json
  | ProfilesList json json
  | GoalsList json json json
  | SegmentsList

type_synonym service = "request \<Rightarrow> error + json"

datatype event = Print line | Request request

text \<open>
  A computation yields the events it caused, in order, and then either its
  value or the exception that stopped it. What was printed before an exception
  stays printed.
\<close>

type_synonym 'a io = "event list \<times> (error + 'a)"

definition skip :: "unit io" where
  "skip = ([], Inr ())"

definition lift :: "error + 'a \<Rightarrow> 'a io" where
  "lift r = ([], r)"

definition bind :: "'a io \<Rightarrow> ('a \<Rightarrow> 'b io) \<Rightarrow> 'b io" where
  "bind m f =
     (case snd m of
        Inl e \<Rightarrow> (fst m, Inl e)
      | Inr x \<Rightarrow> (fst m @ fst (f x), snd (f x)))"

text \<open>A sequence of statements; the first exception ends it.\<close>

fun block :: "unit io list \<Rightarrow> unit io" where
  "block [] = skip"
| "block (m # ms) = bind m (\<lambda>_. block ms)"

definition print :: "line \<Rightarrow> unit io" where
  "print l = ([Print l], Inr ())"

definition execute :: "service \<Rightarrow> request \<Rightarrow> json io" where
  "execute s q = ([Request q], s q)"

definition get :: "json \<Rightarrow> string \<Rightarrow> json io" where
  "get v key = lift (py_get v key)"

text \<open>\<^verbatim>\<open>print(f"<label>{v.get(key)}")\<close>, the statement the formatters are made of.\<close>

definition print_get :: "string \<Rightarrow> json \<Rightarrow> string \<Rightarrow> unit io" where
  "print_get label v key = bind (get v key) (\<lambda>x. print [Lit label, Str x])"

text \<open>\<^verbatim>\<open>for x in v: body(x)\<close>\<close>

definition for_each :: "json \<Rightarrow> (json \<Rightarrow> unit io) \<Rightarrow> unit io" where
  "for_each v body = bind (lift (py_iter v)) (\<lambda>xs. block (map body xs))"

section \<open>The formatters\<close>

text \<open>\<^verbatim>\<open>print_pagination_info\<close> (lines 398 to 414).\<close>

definition print_pagination_info :: "json \<Rightarrow> unit io" where
  "print_pagination_info management_response = block
     [print_get ''Items per page = '' management_response ''itemsPerPage'',
      print_get ''Total Results  = '' management_response ''totalResults'',
      print_get ''Start Index    = '' management_response ''startIndex'',
      bind (get management_response ''previousLink'') (\<lambda>c.
        if truthy c
        then print_get ''Previous Link  = '' management_response ''previousLink''
        else skip),
      bind (get management_response ''nextLink'') (\<lambda>c.
        if truthy c
        then print_get ''Next Link      = '' management_response ''nextLink''
        else skip)]"

text \<open>\<^verbatim>\<open>print_accounts\<close> (lines 136 to 162); first the body of its loop.\<close>

definition print_accounts_item :: "json \<Rightarrow> unit io" where
  "print_accounts_item account = block
     [print_get ''Account ID      = '' account ''id'',
      print_get ''Kind            = '' account ''kind'',
      print_get ''Self Link       = '' account ''selfLink'',
      print_get ''Account Name    = '' account ''name'',
      print_get ''Created         = '' account ''created'',
      print_get ''Updated         = '' account ''updated'',
      bind (get account ''childLink'') (\<lambda>child_link. block
        [print_get ''Child link href = '' child_link ''href'',
         print_get ''Child link type = '' child_link ''type'']),
      print []]"

definition print_accounts :: "json \<Rightarrow> unit io" where
  "print_accounts accounts_response = block
     [print [Lit ''------ Account Collection -------''],
      print_pagination_info accounts_response,
      print [],
      bind (lift (py_get_default accounts_response ''items'' (JArr []))) (\<lambda>items.
        for_each items print_accounts_item),
      bind (get accounts_response ''items'') (\<lambda>items.
        if \<not> truthy items then print [Lit ''No accounts found.\<newline>''] else skip)]"

text \<open>\<^verbatim>\<open>print_webproperties\<close> (lines 165 to 197).\<close>

definition print_webproperties_item :: "json \<Rightarrow> unit io" where
  "print_webproperties_item webproperty = block
     [print_get ''Kind               = '' webproperty ''kind'',
      print_get ''Account ID         = '' webproperty ''accountId'',
      print_get ''Web Property ID    = '' webproperty ''id'',
      print_get ''Internal Web Property ID = '' webproperty ''internalWebPropertyId'',
      print_get ''Website URL        = '' webproperty ''websiteUrl'',
      print_get ''Created            = '' webproperty ''created'',
      print_get ''Updated            = '' webproperty ''updated'',
      print_get ''Self Link          = '' webproperty ''selfLink'',
      bind (get webproperty ''parentLink'') (\<lambda>parent_link. block
        [print_get ''Parent link href   = '' parent_link ''href'',
         print_get ''Parent link type   = '' parent_link ''type'']),
      bind (get webproperty ''childLink'') (\<lambda>child_link. block
        [print_get ''Child link href    = '' child_link ''href'',
         print_get ''Child link type    = '' child_link ''type'']),
      print []]"

definition print_webproperties :: "json \<Rightarrow> unit io" where
  "print_webproperties webproperties_response = block
     [print [Lit ''------ Web Properties Collection -------''],
      print_pagination_info webproperties_response,
      print [],
      bind (lift (py_get_default webproperties_response ''items'' (JArr []))) (\<lambda>items.
        for_each items print_webproperties_item),
      bind (get webproperties_response ''items'') (\<lambda>items.
        if \<not> truthy items then print [Lit ''No webproperties found.\<newline>''] else skip)]"

text \<open>\<^verbatim>\<open>print_profiles\<close> (lines 200 to 247).\<close>

definition print_profiles_item :: "json \<Rightarrow> unit io" where
  "print_profiles_item profile = block
     [print_get ''Kind                      = '' profile ''kind'',
      print_get ''Account ID                = '' profile ''accountId'',
      print_get ''Web Property ID           = '' profile ''webPropertyId'',
      print_get ''Internal Web Property ID = '' profile ''internalWebPropertyId'',
      print_get ''Profile ID                = '' profile ''id'',
      print_get ''Profile Name              = '' profile ''name'',
      print_get ''Currency         = '' profile ''currency'',
      print_get ''Timezone         = '' profile ''timezone'',
      print_get ''Default Page     = '' profile ''defaultPage'',
      print_get ''Exclude Query Parameters        = '' profile ''excludeQueryParameters'',
      print_get ''Site Search Category Parameters = '' profile
        ''siteSearchCategoryParameters'',
      print_get ''Site Search Query Parameters    = '' profile ''siteSearchQueryParameters'',
      print_get ''Created          = '' profile ''created'',
      print_get ''Updated          = '' profile ''updated'',
      print_get ''Self Link        = '' profile ''selfLink'',
      bind (get profile ''parentLink'') (\<lambda>parent_link. block
        [print_get ''Parent link href = '' parent_link ''href'',
         print_get ''Parent link type = '' parent_link ''type'']),
      bind (get profile ''childLink'') (\<lambda>child_link. block
        [print_get ''Child link href  = '' child_link ''href'',
         print_get ''Child link type  = '' child_link ''type'']),
      print []]"

definition print_profiles :: "json \<Rightarrow> unit io" where
  "print_profiles profiles_response = block
     [print [Lit ''------ Profiles Collection -------''],
      print_pagination_info profiles_response,
      print [],
      bind (lift (py_get_default profiles_response ''items'' (JArr []))) (\<lambda>items.
        for_each items print_profiles_item),
      bind (get profiles_response ''items'') (\<lambda>items.
        if \<not> truthy items then print [Lit ''No profiles found.\<newline>''] else skip)]"

text \<open>The four goal-detail formatters (lines 306 to 372).\<close>

definition print_url_destination_goal_step :: "json \<Rightarrow> unit io" where
  "print_url_destination_goal_step goal_step = block
     [print_get ''Step Number  = '' goal_step ''number'',
      print_get ''Step Name    = '' goal_step ''name'',
      print_get ''Step URL     = '' goal_step ''url'']"

definition print_url_destination_goal_details :: "json \<Rightarrow> unit io" where
  "print_url_destination_goal_details goal_details = block
     [print [Lit ''------ Url Destination Goal -------''],
      print_get ''Goal URL            = '' goal_details ''url'',
      print_get ''Case Sensitive      = '' goal_details ''caseSensitive'',
      print_get ''Match Type          = '' goal_details ''matchType'',
      print_get ''First Step Required = '' goal_details ''firstStepRequired'',
      print [Lit ''------ Url Destination Goal Steps -------''],
      bind (lift (py_get_default goal_details ''steps'' (JArr []))) (\<lambda>steps.
        for_each steps print_url_destination_goal_step),
      bind (get goal_details ''steps'') (\<lambda>steps.
        if \<not> truthy steps then print [Lit ''No Steps Configured''] else skip)]"

definition print_visit_time_on_site_goal_details :: "json \<Rightarrow> unit io" where
  "print_visit_time_on_site_goal_details goal_details = block
     [print [Lit ''------ Visit Time On Site Goal -------''],
      print_get ''Comparison Type  = '' goal_details ''comparisonType'',
      print_get ''comparison Value = '' goal_details ''comparisonValue'']"

definition print_visit_num_pages_goal_details :: "json \<Rightarrow> unit io" where
  "print_visit_num_pages_goal_details goal_details = block
     [print [Lit ''------ Visit Num Pages Goal -------''],
      print_get ''Comparison Type  = '' goal_details ''comparisonType'',
      print_get ''comparison Value = '' goal_details ''comparisonValue'']"

text \<open>
  The body of the loop over \<^verbatim>\<open>eventConditions\<close>. \<^verbatim>\<open>event_type in ('CATEGORY',
  'ACTION', 'LABEL')\<close> compares with \<^verbatim>\<open>==\<close>, which only the string itself
  satisfies.
\<close>

definition print_event_condition :: "json \<Rightarrow> unit io" where
  "print_event_condition event_condition =
     bind (get event_condition ''type'') (\<lambda>event_type. block
       [print [Lit ''Type             = '', Str event_type],
        if event_type \<in> set [JStr ''CATEGORY'', JStr ''ACTION'', JStr ''LABEL'']
        then block
          [print_get ''Match Type       = '' event_condition ''matchType'',
           print_get ''Expression       = '' event_condition ''expression'']
        else block
          [print_get ''Comparison Type  = '' event_condition ''comparisonType'',
           print_get ''Comparison Value = '' event_condition ''comparisonValue'']])"

definition print_event_goal_details :: "json \<Rightarrow> unit io" where
  "print_event_goal_details goal_details = block
     [print [Lit ''------ Event Goal -------''],
      print_get ''Use Event Value  = '' goal_details ''useEventValue'',
      bind (lift (py_get_default goal_details ''eventConditions'' (JArr []))) (\<lambda>conditions.
        for_each conditions print_event_condition)]"

text \<open>\<^verbatim>\<open>print_goals\<close> (lines 250 to 303).\<close>

definition print_goals_item :: "json \<Rightarrow> unit io" where
  "print_goals_item goal = block
     [print_get ''Goal ID     = '' goal ''id'',
      print_get ''Kind        = '' goal ''kind'',
      print_get ''Self Link        = '' goal ''selfLink'',
      print_get ''Account ID               = '' goal ''accountId'',
      print_get ''Web Property ID          = '' goal ''webPropertyId'',
      print_get ''Internal Web Property ID = '' goal ''internalWebPropertyId'',
      print_get ''Profile ID               = '' goal ''profileId'',
      print_get ''Goal Name   = '' goal ''name'',
      print_get ''Goal Value  = '' goal ''value'',
      print_get ''Goal Active = '' goal ''active'',
      print_get ''Goal Type   = '' goal ''type'',
      print_get ''Created     = '' goal ''created'',
      print_get ''Updated     = '' goal ''updated'',
      bind (get goal ''parentLink'') (\<lambda>parent_link. block
        [print_get ''Parent link href = '' parent_link ''href'',
         print_get ''Parent link type = '' parent_link ''type'']),
      bind (get goal ''urlDestinationDetails'') (\<lambda>c1.
        if truthy c1
        then bind (get goal ''urlDestinationDetails'') print_url_destination_goal_details
        else bind (get goal ''visitTimeOnSiteDetails'') (\<lambda>c2.
          if truthy c2
          then bind (get goal ''visitTimeOnSiteDetails'') print_visit_time_on_site_goal_details
          else bind (get goal ''visitNumPagesDetails'') (\<lambda>c3.
            if truthy c3
            then bind (get goal ''visitNumPagesDetails'') print_visit_num_pages_goal_details
            else bind (get goal ''eventDetails'') (\<lambda>c4.
              if truthy c4
              then bind (get goal ''eventDetails'') print_event_goal_details
              else skip)))),
      print []]"

definition print_goals :: "json \<Rightarrow> unit io" where
  "print_goals goals_response = block
     [print [Lit ''------ Goals Collection -------''],
      print_pagination_info goals_response,
      print [],
      bind (lift (py_get_default goals_response ''items'' (JArr []))) (\<lambda>items.
        for_each items print_goals_item),
      bind (get goals_response ''items'') (\<lambda>items.
        if \<not> truthy items then print [Lit ''No goals found.\<newline>''] else skip)]"

text \<open>\<^verbatim>\<open>print_segments\<close> (lines 375 to 395). The function ends with its loop.\<close>

definition print_segments_item :: "json \<Rightarrow> unit io" where
  "print_segments_item segment = block
     [print_get ''Segment ID = '' segment ''id'',
      print_get ''Kind       = '' segment ''kind'',
      print_get ''Self Link  = '' segment ''selfLink'',
      print_get ''Name       = '' segment ''name'',
      print_get ''Definition = '' segment ''definition'',
      print_get ''Created    = '' segment ''created'',
      print_get ''Updated    = '' segment ''updated'',
      print []]"

definition print_segments :: "json \<Rightarrow> unit io" where
  "print_segments segments_response = block
     [print [Lit ''------ Segments Collection -------''],
      print_pagination_info segments_response,
      print [],
      bind (lift (py_get_default segments_response ''items'' (JArr []))) (\<lambda>items.
        for_each items print_segments_item)]"

section \<open>The traversal\<close>

text \<open>
  \<^verbatim>\<open>traverse_hiearchy\<close> (lines 90 to 133). \<^verbatim>\<open>accounts.get('items')\<close> is evaluated
  once for the test and once more for the index, as written.
\<close>

definition traverse_hiearchy :: "service \<Rightarrow> unit io" where
  "traverse_hiearchy service =
     bind (execute service AccountsList) (\<lambda>accounts. block
       [print_accounts accounts,
        bind (get accounts ''items'') (\<lambda>c. if truthy c then
          bind (get accounts ''items'') (\<lambda>items.
          bind (lift (py_index0 items)) (\<lambda>first.
          bind (get first ''id'') (\<lambda>firstAccountId.
          bind (execute service (WebpropertiesList firstAccountId)) (\<lambda>webproperties. block
            [print_webproperties webproperties,
             bind (get webproperties ''items'') (\<lambda>c. if truthy c then
               bind (get webproperties ''items'') (\<lambda>items.
               bind (lift (py_index0 items)) (\<lambda>first.
               bind (get first ''id'') (\<lambda>firstWebpropertyId.
               bind (execute service (ProfilesList firstAccountId firstWebpropertyId))
                 (\<lambda>profiles. block
                 [print_profiles profiles,
                  bind (get profiles ''items'') (\<lambda>c. if truthy c then
                    bind (get profiles ''items'') (\<lambda>items.
                    bind (lift (py_index0 items)) (\<lambda>first.
                    bind (get first ''id'') (\<lambda>firstProfileId.
                    bind (execute service
                           (GoalsList firstAccountId firstWebpropertyId firstProfileId))
                      print_goals)))
                  else skip)]))))
             else skip)]))))
        else skip),
        bind (execute service SegmentsList) print_segments])"

text \<open>
  \<^verbatim>\<open>main\<close> (lines 65 to 87), given the service that \<^verbatim>\<open>sample_tools.init\<close>
  built. The three \<^verbatim>\<open>except\<close> clauses print one line each; any other
  exception leaves \<^verbatim>\<open>main\<close>.
\<close>

fun handler :: "error \<Rightarrow> unit io" where
  "handler (TypeError msg) =
     print [Lit ''There was an error in constructing your query : '', Str (JStr msg)]"
| "handler (HttpError status reason) =
     print [Lit ''Arg, there was an API error : '', Str (JInt status),
            Lit '' : '', Str (JStr reason)]"
| "handler AccessTokenRefreshError =
     print [Lit (''The credentials have been revoked or expired, please re-run'' @
                 ''the application to re-authorize'')]"
| "handler e = ([], Inl e)"

definition main :: "service \<Rightarrow> unit io" where
  "main service =
     (case snd (traverse_hiearchy service) of
        Inl e \<Rightarrow> (fst (traverse_hiearchy service) @ fst (handler e), snd (handler e))
      | Inr u \<Rightarrow> traverse_hiearchy service)"

section \<open>Notions used in the properties\<close>

text \<open>The value of \<^verbatim>\<open>d.get(key)\<close> for a dictionary \<open>d\<close>: \<^verbatim>\<open>None\<close> when the key is missing.\<close>

definition field :: "(string \<times> json) list \<Rightarrow> string \<Rightarrow> json" where
  "field kvs key = (case map_of kvs key of None \<Rightarrow> JNull | Some v \<Rightarrow> v)"

text \<open>Every event of a computation satisfies \<open>P\<close>.\<close>

definition all_events :: "(event \<Rightarrow> bool) \<Rightarrow> 'a io \<Rightarrow> bool" where
  "all_events P m = list_all P (fst m)"

text \<open>
  Items on which a formatter runs to its end: a dictionary whose link
  sub-objects, as far as the formatter prints them, are dictionaries; for a
  goal also the detail object that the dispatch selects, with a list of
  dictionaries (or nothing) under \<^verbatim>\<open>steps\<close> or \<^verbatim>\<open>eventConditions\<close>.
\<close>

fun is_obj :: "json \<Rightarrow> bool" where
  "is_obj (JObj kvs) = True"
| "is_obj v = False"

definition list_or_absent :: "(json \<Rightarrow> bool) \<Rightarrow> (string \<times> json) list \<Rightarrow> string \<Rightarrow> bool" where
  "list_or_absent ok kvs key =
     (case map_of kvs key of
        None \<Rightarrow> True
      | Some v \<Rightarrow> (case v of JArr xs \<Rightarrow> list_all ok xs | _ \<Rightarrow> False))"

definition has_link :: "json \<Rightarrow> string \<Rightarrow> bool" where
  "has_link v key = (case v of JObj kvs \<Rightarrow> is_obj (field kvs key) | _ \<Rightarrow> False)"

definition account_ok :: "json \<Rightarrow> bool" where
  "account_ok v = has_link v ''childLink''"

text \<open>Web properties and profiles print both links.\<close>

definition webproperty_ok :: "json \<Rightarrow> bool" where
  "webproperty_ok v = (has_link v ''parentLink'' \<and> has_link v ''childLink'')"

definition profile_ok :: "json \<Rightarrow> bool" where
  "profile_ok v = (has_link v ''parentLink'' \<and> has_link v ''childLink'')"

definition details_ok :: "string \<Rightarrow> json \<Rightarrow> bool" where
  "details_ok key v = (case v of JObj d \<Rightarrow> list_or_absent is_obj d key | _ \<Rightarrow> False)"

definition goal_ok :: "json \<Rightarrow> bool" where
  "goal_ok v =
     (case v of
        JObj g \<Rightarrow>
          is_obj (field g ''parentLink'') \<and>
          (if truthy (field g ''urlDestinationDetails'')
           then details_ok ''steps'' (field g ''urlDestinationDetails'')
           else if truthy (field g ''visitTimeOnSiteDetails'')
           then is_obj (field g ''visitTimeOnSiteDetails'')
           else if truthy (field g ''visitNumPagesDetails'')
           then is_obj (field g ''visitNumPagesDetails'')
           else if truthy (field g ''eventDetails'')
           then details_ok ''eventConditions'' (field g ''eventDetails'')
           else True)
      | _ \<Rightarrow> False)"

text \<open>
  The four detail sub-formatters each begin by printing their own header line,
  so the headers found in an output tell which sub-formatters were entered,
  and in which order.
\<close>

definition detail_headers :: "event list" where
  "detail_headers =
     [Print [Lit ''------ Url Destination Goal -------''],
      Print [Lit ''------ Visit Time On Site Goal -------''],
      Print [Lit ''------ Visit Num Pages Goal -------''],
      Print [Lit ''------ Event Goal -------'']]"

definition entered :: "'a io \<Rightarrow> event list" where
  "entered m = filter (\<lambda>e. e \<in> set detail_headers) (fst m)"

text \<open>The four optional detail fields of a goal, in the order of the dispatch.\<close>

definition detail_keys :: "string list" where
  "detail_keys = [''urlDestinationDetails'', ''visitTimeOnSiteDetails'',
                  ''visitNumPagesDetails'', ''eventDetails'']"

text \<open>The dictionary without a key.\<close>

definition remove_key :: "string \<Rightarrow> (string \<times> json) list \<Rightarrow> (string \<times> json) list" where
  "remove_key key kvs = filter (\<lambda>kv. fst kv \<noteq> key) kvs"

text \<open>The step from a collection to the next level, as written three times in the traversal.\<close>

definition descend :: "json \<Rightarrow> (json \<Rightarrow> unit io) \<Rightarrow> unit io" where
  "descend response next_level =
     bind (get response ''items'') (\<lambda>c. if truthy c then
       bind (get response ''items'') (\<lambda>items.
       bind (lift (py_index0 items)) (\<lambda>first.
       bind (get first ''id'') next_level))
     else skip)"

text \<open>
  The three nested levels of \<^verbatim>\<open>traverse_hiearchy\<close>, named so that they can be
  reasoned about one at a time (lemma \<open>traverse_levels\<close>).
\<close>

definition goals_level :: "service \<Rightarrow> json \<Rightarrow> json \<Rightarrow> json \<Rightarrow> unit io" where
  "goals_level s a w profiles =
     descend profiles (\<lambda>p. bind (execute s (GoalsList a w p)) print_goals)"

definition profiles_level :: "service \<Rightarrow> json \<Rightarrow> json \<Rightarrow> unit io" where
  "profiles_level s a webproperties =
     descend webproperties (\<lambda>w. bind (execute s (ProfilesList a w)) (\<lambda>profiles.
       block [print_profiles profiles, goals_level s a w profiles]))"

definition webproperties_level :: "service \<Rightarrow> json \<Rightarrow> unit io" where
  "webproperties_level s accounts =
     descend accounts (\<lambda>a. bind (execute s (WebpropertiesList a)) (\<lambda>webproperties.
       block [print_webproperties webproperties, profiles_level s a webproperties]))"

text \<open>The key that the step passes on: the id of the first item, if there are items.\<close>

definition first_key :: "json \<Rightarrow> error + json option" where
  "first_key response =
     (case py_get response ''items'' of
        Inl e \<Rightarrow> Inl e
      | Inr c \<Rightarrow>
          if truthy c
          then (case py_index0 c of
                  Inl e \<Rightarrow> Inl e
                | Inr first \<Rightarrow>
                    (case py_get first ''id'' of Inl e \<Rightarrow> Inl e | Inr k \<Rightarrow> Inr (Some k)))
          else Inr None)"

text \<open>Events that are printed lines.\<close>

fun is_print :: "event \<Rightarrow> bool" where
  "is_print (Print l) = True"
| "is_print (Request q) = False"

text \<open>
  A computation halts on errors of the service: a request that the service
  answers with an exception is the last event, and the exception is the result.
\<close>

definition halts_on_error :: "service \<Rightarrow> 'a io \<Rightarrow> bool" where
  "halts_on_error s m =
     (\<forall>q e. Request q \<in> set (fst m) \<longrightarrow> s q = Inl e \<longrightarrow>
        snd m = Inl e \<and> fst m \<noteq> [] \<and> last (fst m) = Request q)"

text \<open>The exceptions for which \<^verbatim>\<open>main\<close> has an \<^verbatim>\<open>except\<close> clause.\<close>

fun caught :: "error \<Rightarrow> bool" where
  "caught (TypeError msg) = True"
| "caught (HttpError status reason) = True"
| "caught AccessTokenRefreshError = True"
| "caught e = False"

text \<open>The lines printed by the \<^verbatim>\<open>except\<close> clauses, recognised by their literal text.\<close>

fun is_diagnostic :: "event \<Rightarrow> bool" where
  "is_diagnostic (Print (Lit l # ps)) =
     (l \<in> set [''There was an error in constructing your query : '',
                ''Arg, there was an API error : '',
                ''The credentials have been revoked or expired, please re-run'' @
                ''the application to re-authorize''])"
| "is_diagnostic e = False"

text \<open>The service calls of a run, in order.\<close>

fun requests :: "event list \<Rightarrow> request list" where
  "requests [] = []"
| "requests (Print l # es) = requests es"
| "requests (Request q # es) = q # requests es"

text \<open>The two events of the segments step: its list call and its header line.\<close>

definition segments_events :: "event list" where
  "segments_events = [Request SegmentsList, Print [Lit ''------ Segments Collection -------'']]"

text \<open>Two services give the same answer to every request a computation makes.\<close>

definition agree :: "service \<Rightarrow> service \<Rightarrow> 'a io \<Rightarrow> bool" where
  "agree s1 s2 m = (\<forall>q. Request q \<in> set (fst m) \<longrightarrow> s1 q = s2 q)"

text \<open>
  A service with two accounts, one web property and one profile, no goals and
  no segments.
\<close>

definition example_service :: service where
  "example_service q =
     (case q of
        AccountsList \<Rightarrow> Inr (JObj [(''items'', JArr
          [JObj [(''id'', JStr ''A1''), (''childLink'', JObj [])],
           JObj [(''id'', JStr ''A2''), (''childLink'', JObj [])]])])
      | WebpropertiesList a \<Rightarrow> Inr (JObj [(''items'', JArr
          [JObj [(''id'', JStr ''W1''), (''parentLink'', JObj []), (''childLink'', JObj [])]])])
      | ProfilesList a w \<Rightarrow> Inr (JObj [(''items'', JArr
          [JObj [(''id'', JStr ''P1''), (''parentLink'', JObj []), (''childLink'', JObj [])]])])
      | GoalsList a w p \<Rightarrow> Inr (JObj [])
      | SegmentsList \<Rightarrow> Inr (JObj []))"

text \<open>The same service, except that the web properties call is refused.\<close>

definition failing_service :: service where
  "failing_service q =
     (case q of
        WebpropertiesList a \<Rightarrow> Inl (HttpError 403 ''insufficient permission'')
      | _ \<Rightarrow> example_service q)"

section \<open>Sequencing lemmas\<close>

lemma py_get_obj: "py_get (JObj kvs) key = Inr (field kvs key)"
  by (simp add: py_get_def field_def)

lemma get_obj: "get (JObj kvs) key = ([], Inr (field kvs key))"
  by (simp add: get_def lift_def py_get_obj)

lemma print_get_obj: "print_get l (JObj kvs) key = ([Print [Lit l, Str (field kvs key)]], Inr ())"
  by (simp add: print_get_def get_obj bind_def print_def)

lemma fst_bind: "fst (bind m f) = fst m @ (case snd m of Inl e \<Rightarrow> [] | Inr x \<Rightarrow> fst (f x))"
  by (simp add: bind_def split: sum.splits)

lemma snd_bind: "snd (bind m f) = (case snd m of Inl e \<Rightarrow> Inl e | Inr x \<Rightarrow> snd (f x))"
  by (simp add: bind_def split: sum.splits)

lemma bind_Inr: "bind (t, Inr x) f = (t @ fst (f x), snd (f x))"
  by (simp add: bind_def)

lemma bind_Inl: "bind (t, Inl e) f = (t, Inl e)"
  by (simp add: bind_def)

lemma block_map_ok:
  "list_all (\<lambda>x. snd (body x) = Inr ()) xs \<Longrightarrow>
   block (map body xs) = (concat (map (\<lambda>x. fst (body x)) xs), Inr ())"
  by (induction xs) (simp_all add: skip_def bind_def)

lemma all_events_bind:
  "all_events P m \<Longrightarrow> (\<And>x. all_events P (f x)) \<Longrightarrow> all_events P (bind m f)"
  by (simp add: all_events_def fst_bind split: sum.splits)

lemma all_events_block_Nil: "all_events P (block [])"
  by (simp add: all_events_def skip_def)

lemma all_events_block_Cons:
  "all_events P m \<Longrightarrow> all_events P (block ms) \<Longrightarrow> all_events P (block (m # ms))"
  by (simp add: all_events_bind)

lemma all_events_block_map:
  "(\<And>x. all_events P (body x)) \<Longrightarrow> all_events P (block (map body xs))"
  by (induction xs) (simp_all only: list.map all_events_block_Nil all_events_block_Cons)

lemma all_events_skip: "all_events P skip"
  by (simp add: all_events_def skip_def)

lemma all_events_lift: "all_events P (lift r)"
  by (simp add: all_events_def lift_def)

lemma all_events_get: "all_events P (get v key)"
  by (simp add: get_def all_events_lift)

lemma all_events_print: "P (Print l) \<Longrightarrow> all_events P (print l)"
  by (simp add: all_events_def print_def)

lemma all_events_print_get:
  "(\<And>x. P (Print [Lit l, Str x])) \<Longrightarrow> all_events P (print_get l v key)"
  by (simp add: print_get_def all_events_bind all_events_get all_events_print)

lemma all_events_for_each:
  "(\<And>x. all_events P (body x)) \<Longrightarrow> all_events P (for_each v body)"
  unfolding for_each_def
  by (intro all_events_bind all_events_lift all_events_block_map)

lemma all_events_if:
  "all_events P a \<Longrightarrow> all_events P b \<Longrightarrow> all_events P (if c then a else b)"
  by simp

lemma all_events_execute: "P (Request q) \<Longrightarrow> all_events P (execute s q)"
  by (simp add: all_events_def execute_def)

lemmas all_events_intros = all_events_bind all_events_block_Nil all_events_block_Cons
  all_events_skip all_events_lift all_events_get all_events_print all_events_print_get all_events_for_each all_events_if
  all_events_execute

lemma snd_block_map:
  "list_all (\<lambda>x. snd (body x) = Inr ()) xs \<Longrightarrow> snd (block (map body xs)) = Inr ()"
  by (induction xs) (simp_all add: skip_def snd_bind)

lemma snd_pagination: "snd (print_pagination_info (JObj r)) = Inr ()"
  by (simp add: print_pagination_info_def print_get_obj get_obj bind_def skip_def)

lemma loop_ok:
  assumes "list_or_absent ok r key" and "\<And>x. ok x \<Longrightarrow> snd (body x) = Inr ()"
  shows "snd (bind (lift (py_get_default (JObj r) key (JArr []))) (\<lambda>items. for_each items body))
         = Inr ()"
proof (cases "map_of r key")
  case None
  then show ?thesis
    by (simp add: lift_def bind_Inr for_each_def skip_def)
next
  case (Some v)
  with assms(1) obtain xs where v: "v = JArr xs" and xs: "list_all ok xs"
    by (auto simp: list_or_absent_def split: json.splits)
  from xs assms(2) have "list_all (\<lambda>x. snd (body x) = Inr ()) xs"
    by (simp add: list_all_iff)
  then show ?thesis
    using Some v by (simp add: lift_def bind_Inr for_each_def snd_block_map)
qed

lemma sentinel_ok:
  "snd (bind (get (JObj r) key) (\<lambda>items. if \<not> truthy items then print l else skip)) = Inr ()"
  by (simp add: get_obj bind_Inr print_def skip_def)

lemma account_item_ok: "account_ok x \<Longrightarrow> snd (print_accounts_item x) = Inr ()"
  by (auto simp: account_ok_def has_link_def print_accounts_item_def print_get_obj get_obj
      bind_Inr print_def skip_def split: json.splits elim!: is_obj.elims)

lemma snd_block_all: "list_all (\<lambda>m. snd m = Inr ()) ms \<Longrightarrow> snd (block ms) = Inr ()"
  by (induction ms) (simp_all add: skip_def snd_bind)

lemma webproperty_item_ok: "webproperty_ok x \<Longrightarrow> snd (print_webproperties_item x) = Inr ()"
  by (auto simp: webproperty_ok_def has_link_def print_webproperties_item_def print_get_obj get_obj
      bind_Inr print_def skip_def split: json.splits elim!: is_obj.elims)

lemma profile_item_ok: "profile_ok x \<Longrightarrow> snd (print_profiles_item x) = Inr ()"
  by (auto simp: profile_ok_def has_link_def print_profiles_item_def print_get_obj get_obj
      bind_Inr print_def skip_def split: json.splits elim!: is_obj.elims)

lemma segment_item_ok: "is_obj x \<Longrightarrow> snd (print_segments_item x) = Inr ()"
  by (auto simp: print_segments_item_def print_get_obj get_obj
      bind_Inr print_def skip_def elim!: is_obj.elims)

lemma step_ok: "is_obj x \<Longrightarrow> snd (print_url_destination_goal_step x) = Inr ()"
  by (auto simp: print_url_destination_goal_step_def print_get_obj bind_Inr skip_def
      elim!: is_obj.elims)

lemma condition_ok: "is_obj x \<Longrightarrow> snd (print_event_condition x) = Inr ()"
  by (auto simp: print_event_condition_def print_get_obj get_obj bind_Inr skip_def print_def
      elim!: is_obj.elims)

lemma url_details_ok:
  assumes "details_ok ''steps'' v"
  shows "snd (print_url_destination_goal_details v) = Inr ()"
proof -
  from assms obtain d where v: "v = JObj d" and d: "list_or_absent is_obj d ''steps''"
    by (auto simp: details_ok_def split: json.splits)
  show ?thesis
    unfolding print_url_destination_goal_details_def v
    by (rule snd_block_all)
      (simp add: print_get_obj print_def sentinel_ok loop_ok [OF d step_ok]
        del: py_get_default.simps)
qed

lemma event_details_ok:
  assumes "details_ok ''eventConditions'' v"
  shows "snd (print_event_goal_details v) = Inr ()"
proof -
  from assms obtain d where v: "v = JObj d" and d: "list_or_absent is_obj d ''eventConditions''"
    by (auto simp: details_ok_def split: json.splits)
  show ?thesis
    unfolding print_event_goal_details_def v
    by (rule snd_block_all)
      (simp add: print_get_obj print_def loop_ok [OF d condition_ok]
        del: py_get_default.simps)
qed

lemma visit_details_ok:
  "is_obj v \<Longrightarrow> snd (print_visit_time_on_site_goal_details v) = Inr ()"
  "is_obj v \<Longrightarrow> snd (print_visit_num_pages_goal_details v) = Inr ()"
  by (auto simp: print_visit_time_on_site_goal_details_def print_visit_num_pages_goal_details_def
      print_get_obj print_def bind_Inr skip_def elim!: is_obj.elims)

lemma goal_item_ok:
  assumes "goal_ok x"
  shows "snd (print_goals_item x) = Inr ()"
proof -
  from assms obtain g where x: "x = JObj g" and p: "is_obj (field g ''parentLink'')"
    by (auto simp: goal_ok_def split: json.splits)
  from p obtain l where l: "field g ''parentLink'' = JObj l"
    by (auto elim: is_obj.elims)
  show ?thesis
    using assms unfolding print_goals_item_def x
    by (intro snd_block_all)
      (auto simp: goal_ok_def l print_get_obj get_obj print_def bind_Inr skip_def
        url_details_ok event_details_ok visit_details_ok)
qed

lemma pagination_obj:
  "print_pagination_info (JObj r) =
     ([Print [Lit ''Items per page = '', Str (field r ''itemsPerPage'')],
       Print [Lit ''Total Results  = '', Str (field r ''totalResults'')],
       Print [Lit ''Start Index    = '', Str (field r ''startIndex'')]] @
      (if truthy (field r ''previousLink'')
       then [Print [Lit ''Previous Link  = '', Str (field r ''previousLink'')]] else []) @
      (if truthy (field r ''nextLink'')
       then [Print [Lit ''Next Link      = '', Str (field r ''nextLink'')]] else []),
      Inr ())"
  by (simp add: print_pagination_info_def print_get_obj get_obj bind_def skip_def)

lemma no_items_loop:
  assumes "map_of r ''items'' = None \<or> map_of r ''items'' = Some (JArr [])"
  shows "bind (lift (py_get_default (JObj r) ''items'' (JArr []))) (\<lambda>items. for_each items body)
         = ([], Inr ())"
  using assms by (auto simp: lift_def bind_Inr for_each_def skip_def)

lemma no_items_test:
  assumes "map_of r ''items'' = None \<or> map_of r ''items'' = Some (JArr [])"
  shows "bind (get (JObj r) ''items'') (\<lambda>items. if \<not> truthy items then print l else skip)
         = ([Print l], Inr ())"
  using assms by (auto simp: get_obj field_def bind_Inr print_def)

text \<open>
  What the four hierarchy formatters print for a response without items: the
  header, the pagination block, an empty line and the sentinel.
\<close>

lemma no_items_sentinel:
  assumes "map_of r ''items'' = None \<or> map_of r ''items'' = Some (JArr [])"
  shows "print_accounts (JObj r) =
           (Print [Lit ''------ Account Collection -------''] #
            fst (print_pagination_info (JObj r)) @
            [Print [], Print [Lit ''No accounts found.\<newline>'']], Inr ())"
    and "print_webproperties (JObj r) =
           (Print [Lit ''------ Web Properties Collection -------''] #
            fst (print_pagination_info (JObj r)) @
            [Print [], Print [Lit ''No webproperties found.\<newline>'']], Inr ())"
    and "print_profiles (JObj r) =
           (Print [Lit ''------ Profiles Collection -------''] #
            fst (print_pagination_info (JObj r)) @
            [Print [], Print [Lit ''No profiles found.\<newline>'']], Inr ())"
    and "print_goals (JObj r) =
           (Print [Lit ''------ Goals Collection -------''] #
            fst (print_pagination_info (JObj r)) @
            [Print [], Print [Lit ''No goals found.\<newline>'']], Inr ())"
  unfolding print_accounts_def print_webproperties_def print_profiles_def print_goals_def
  by (rule prod_eqI;
      simp add: no_items_loop [OF assms] no_items_test [OF assms] fst_bind snd_bind
        snd_pagination print_def skip_def del: py_get_default.simps)+

text \<open>The segments formatter on the same input stops after the empty line.\<close>

lemma no_items_segments:
  assumes "map_of r ''items'' = None \<or> map_of r ''items'' = Some (JArr [])"
  shows "print_segments (JObj r) =
           (Print [Lit ''------ Segments Collection -------''] #
            fst (print_pagination_info (JObj r)) @ [Print []], Inr ())"
  unfolding print_segments_def
  by (rule prod_eqI;
      simp add: no_items_loop [OF assms] fst_bind snd_bind snd_pagination print_def skip_def
        del: py_get_default.simps)

text \<open>Which detail sub-formatter the goal formatter enters.\<close>

lemma entered_bind:
  "entered (bind m f) = entered m @ (case snd m of Inl e \<Rightarrow> [] | Inr x \<Rightarrow> entered (f x))"
  by (simp add: entered_def fst_bind split: sum.splits)

lemma entered_none: "all_events (\<lambda>e. e \<notin> set detail_headers) m \<Longrightarrow> entered m = []"
  by (simp add: entered_def all_events_def list_all_iff filter_empty_conv)

lemma entered_print_get: "entered (print_get l v key) = []"
  by (rule entered_none, rule all_events_print_get) (simp add: detail_headers_def)

lemma entered_skip: "entered skip = []"
  by (simp add: entered_def skip_def)

lemma entered_header_block:
  assumes "Print l \<in> set detail_headers"
    and "all_events (\<lambda>e. e \<notin> set detail_headers) (block ms)"
  shows "entered (block (print l # ms)) = [Print l]"
proof -
  have "entered (block ms) = []"
    using assms(2) by (rule entered_none)
  moreover have "entered (print l) = [Print l]" and "snd (print l) = Inr ()"
    using assms(1) by (simp_all add: entered_def print_def)
  ultimately show ?thesis
    by (simp add: entered_bind)
qed

lemma entered_url: "entered (print_url_destination_goal_details v) =
    [Print [Lit ''------ Url Destination Goal -------'']]"
  unfolding print_url_destination_goal_details_def print_url_destination_goal_step_def
  by (rule entered_header_block, simp add: detail_headers_def)
    ((intro all_events_intros; simp add: detail_headers_def))

lemma entered_visit_time: "entered (print_visit_time_on_site_goal_details v) =
    [Print [Lit ''------ Visit Time On Site Goal -------'']]"
  unfolding print_visit_time_on_site_goal_details_def
  by (rule entered_header_block, simp add: detail_headers_def)
    ((intro all_events_intros; simp add: detail_headers_def))

lemma entered_visit_pages: "entered (print_visit_num_pages_goal_details v) =
    [Print [Lit ''------ Visit Num Pages Goal -------'']]"
  unfolding print_visit_num_pages_goal_details_def
  by (rule entered_header_block, simp add: detail_headers_def)
    ((intro all_events_intros; simp add: detail_headers_def))

lemma entered_event: "entered (print_event_goal_details v) =
    [Print [Lit ''------ Event Goal -------'']]"
  unfolding print_event_goal_details_def print_event_condition_def
  by (rule entered_header_block, simp add: detail_headers_def)
    ((intro all_events_intros; simp add: detail_headers_def))

lemma snd_print_get_obj: "snd (print_get l (JObj kvs) key) = Inr ()"
  by (simp add: print_get_obj)

lemma snd_skip: "snd skip = Inr ()"
  by (simp add: skip_def)

lemma snd_print: "snd (print l) = Inr ()"
  by (simp add: print_def)

lemma entered_print: "entered (print []) = []"
  by (simp add: entered_def print_def detail_headers_def)

lemma snd_print_get_other: "\<not> is_obj v \<Longrightarrow> snd (print_get l v key) = Inl AttributeError"
  by (cases v) (simp_all add: print_get_def get_def lift_def py_get_def bind_def)

lemma entered_goal_obj:
  assumes "is_obj (field g ''parentLink'')"
  shows "entered (print_goals_item (JObj g)) =
     (if truthy (field g ''urlDestinationDetails'')
      then [Print [Lit ''------ Url Destination Goal -------'']]
      else if truthy (field g ''visitTimeOnSiteDetails'')
      then [Print [Lit ''------ Visit Time On Site Goal -------'']]
      else if truthy (field g ''visitNumPagesDetails'')
      then [Print [Lit ''------ Visit Num Pages Goal -------'']]
      else if truthy (field g ''eventDetails'')
      then [Print [Lit ''------ Event Goal -------'']]
      else [])"
proof -
  from assms obtain l where l: "field g ''parentLink'' = JObj l"
    by (auto elim: is_obj.elims)
  show ?thesis
    unfolding print_goals_item_def
    by (simp add: entered_bind entered_print_get snd_print_get_obj get_obj l entered_skip
        entered_print entered_url entered_visit_time entered_visit_pages entered_event
        entered_def [of "([], x)" for x] snd_bind snd_skip snd_print split: sum.split)
qed

lemma entered_goal_no_parent:
  assumes "\<not> is_obj (field g ''parentLink'')"
  shows "entered (print_goals_item (JObj g)) = []"
  unfolding print_goals_item_def
  using assms
  by (simp add: entered_bind entered_print_get snd_print_get_obj get_obj entered_skip
        entered_print snd_print_get_other
        entered_def [of "([], x)" for x] snd_bind snd_skip snd_print split: sum.split)

lemma entered_goal_other:
  assumes "\<not> is_obj v"
  shows "entered (print_goals_item v) = []"
  unfolding print_goals_item_def
  using assms
  by (simp add: entered_bind entered_print_get snd_print_get_other)

lemma map_of_remove_key:
  "map_of (remove_key key kvs) k = (if k = key then None else map_of kvs k)"
  by (induction kvs) (auto simp: remove_key_def)

lemma field_remove_key:
  "field (remove_key key kvs) k = (if k = key then JNull else field kvs k)"
  by (simp add: field_def map_of_remove_key)

lemma bind_pure: "bind ([], Inr x) f = f x"
  by (simp add: bind_def)

lemma remove_falsy_detail:
  assumes "d \<in> set detail_keys" "map_of g d = Some v" "\<not> truthy v"
  shows "print_goals_item (JObj (remove_key d g)) = print_goals_item (JObj g)"
proof -
  have f: "\<not> truthy (field g d)"
    using assms by (simp add: field_def)
  have other: "field (remove_key d g) k = field g k" if "k \<notin> set detail_keys" for k
    using that assms(1) by (auto simp: field_remove_key)
  have line: "print_get l (JObj (remove_key d g)) k = print_get l (JObj g) k"
    if "k \<notin> set detail_keys" for l k
    using that by (simp add: print_get_obj other)
  have parent: "get (JObj (remove_key d g)) ''parentLink'' = get (JObj g) ''parentLink''"
    by (simp add: get_obj other detail_keys_def)
  have dispatch:
    "bind (get (JObj (remove_key d g)) ''urlDestinationDetails'') (\<lambda>c1.
        if truthy c1
        then bind (get (JObj (remove_key d g)) ''urlDestinationDetails'')
          print_url_destination_goal_details
        else bind (get (JObj (remove_key d g)) ''visitTimeOnSiteDetails'') (\<lambda>c2.
          if truthy c2
          then bind (get (JObj (remove_key d g)) ''visitTimeOnSiteDetails'')
            print_visit_time_on_site_goal_details
          else bind (get (JObj (remove_key d g)) ''visitNumPagesDetails'') (\<lambda>c3.
            if truthy c3
            then bind (get (JObj (remove_key d g)) ''visitNumPagesDetails'')
              print_visit_num_pages_goal_details
            else bind (get (JObj (remove_key d g)) ''eventDetails'') (\<lambda>c4.
              if truthy c4
              then bind (get (JObj (remove_key d g)) ''eventDetails'') print_event_goal_details
              else skip)))) =
     bind (get (JObj g) ''urlDestinationDetails'') (\<lambda>c1.
        if truthy c1
        then bind (get (JObj g) ''urlDestinationDetails'') print_url_destination_goal_details
        else bind (get (JObj g) ''visitTimeOnSiteDetails'') (\<lambda>c2.
          if truthy c2
          then bind (get (JObj g) ''visitTimeOnSiteDetails'')
            print_visit_time_on_site_goal_details
          else bind (get (JObj g) ''visitNumPagesDetails'') (\<lambda>c3.
            if truthy c3
            then bind (get (JObj g) ''visitNumPagesDetails'')
              print_visit_num_pages_goal_details
            else bind (get (JObj g) ''eventDetails'') (\<lambda>c4.
              if truthy c4
              then bind (get (JObj g) ''eventDetails'') print_event_goal_details
              else skip))))"
    using assms(1) f
    by (auto simp: detail_keys_def get_obj field_remove_key bind_pure)
  show ?thesis
    unfolding print_goals_item_def dispatch parent
    by (simp add: line detail_keys_def del: block.simps)
qed

section \<open>Properties of the formatters\<close>

text \<open>
  C7 (amended). For every collection response that is a dictionary, the
  pagination printer prints itemsPerPage, totalResults and startIndex in that
  order, then a previousLink line exactly when the value of previousLink is
  truthy, then a nextLink line exactly when the value of nextLink is truthy;
  a key that is present with an empty value prints no line.
\<close>

theorem pagination_info_lines:
  "print_pagination_info (JObj r) =
     ([Print [Lit ''Items per page = '', Str (field r ''itemsPerPage'')],
       Print [Lit ''Total Results  = '', Str (field r ''totalResults'')],
       Print [Lit ''Start Index    = '', Str (field r ''startIndex'')]] @
      (if truthy (field r ''previousLink'')
       then [Print [Lit ''Previous Link  = '', Str (field r ''previousLink'')]] else []) @
      (if truthy (field r ''nextLink'')
       then [Print [Lit ''Next Link      = '', Str (field r ''nextLink'')]] else []),
      Inr ())"
  by (rule pagination_obj)

text \<open>
  C7 as stated fails: on a response whose previousLink is present and is the
  empty string, only the three unconditional lines are printed.
\<close>

theorem pagination_present_empty_link:
  "map_of [(''previousLink'', JStr '''')] ''previousLink'' = Some (JStr '''') \<and>
   print_pagination_info (JObj [(''previousLink'', JStr '''')]) =
     ([Print [Lit ''Items per page = '', Str JNull],
       Print [Lit ''Total Results  = '', Str JNull],
       Print [Lit ''Start Index    = '', Str JNull]], Inr ())"
  by (simp add: pagination_obj field_def)

text \<open>
  C2, the segments formatter. On a response without items, and on one whose
  item list is empty, \<^verbatim>\<open>print_segments\<close> prints the header, the pagination
  block and the empty line, and no sentinel line.
\<close>

theorem print_segments_no_sentinel:
  "print_segments (JObj []) =
     ([Print [Lit ''------ Segments Collection -------''],
       Print [Lit ''Items per page = '', Str JNull],
       Print [Lit ''Total Results  = '', Str JNull],
       Print [Lit ''Start Index    = '', Str JNull],
       Print []], Inr ()) \<and>
   print_segments (JObj [(''items'', JArr [])]) =
     ([Print [Lit ''------ Segments Collection -------''],
       Print [Lit ''Items per page = '', Str JNull],
       Print [Lit ''Total Results  = '', Str JNull],
       Print [Lit ''Start Index    = '', Str JNull],
       Print []], Inr ())"
  by (simp add: no_items_segments pagination_obj field_def)

text \<open>
  C8. For every event condition that is a dictionary, the loop body of the
  event sub-formatter prints the type and then, when the type is CATEGORY,
  ACTION or LABEL, exactly matchType and expression, and for any other type
  exactly comparisonType and comparisonValue. The event sub-formatter prints
  these groups for its conditions in the order received.
\<close>

theorem event_condition_fields:
  "print_event_condition (JObj c) =
     (if field c ''type'' \<in> {JStr ''CATEGORY'', JStr ''ACTION'', JStr ''LABEL''}
      then ([Print [Lit ''Type             = '', Str (field c ''type'')],
             Print [Lit ''Match Type       = '', Str (field c ''matchType'')],
             Print [Lit ''Expression       = '', Str (field c ''expression'')]], Inr ())
      else ([Print [Lit ''Type             = '', Str (field c ''type'')],
             Print [Lit ''Comparison Type  = '', Str (field c ''comparisonType'')],
             Print [Lit ''Comparison Value = '', Str (field c ''comparisonValue'')]], Inr ())) \<and>
   (map_of d ''eventConditions'' = Some (JArr cs) \<longrightarrow> list_all is_obj cs \<longrightarrow>
    print_event_goal_details (JObj d) =
      ([Print [Lit ''------ Event Goal -------''],
        Print [Lit ''Use Event Value  = '', Str (field d ''useEventValue'')]] @
       concat (map (\<lambda>c. fst (print_event_condition c)) cs), Inr ()))"
proof (intro conjI impI)
  show "print_event_condition (JObj c) =
     (if field c ''type'' \<in> {JStr ''CATEGORY'', JStr ''ACTION'', JStr ''LABEL''}
      then ([Print [Lit ''Type             = '', Str (field c ''type'')],
             Print [Lit ''Match Type       = '', Str (field c ''matchType'')],
             Print [Lit ''Expression       = '', Str (field c ''expression'')]], Inr ())
      else ([Print [Lit ''Type             = '', Str (field c ''type'')],
             Print [Lit ''Comparison Type  = '', Str (field c ''comparisonType'')],
             Print [Lit ''Comparison Value = '', Str (field c ''comparisonValue'')]], Inr ()))"
    by (simp add: print_event_condition_def print_get_obj get_obj bind_def print_def skip_def)
next
  assume d: "map_of d ''eventConditions'' = Some (JArr cs)" and cs: "list_all is_obj cs"
  have "list_all (\<lambda>c. snd (print_event_condition c) = Inr ()) cs"
    using cs condition_ok by (auto simp: list_all_iff)
  then have "block (map print_event_condition cs) =
          (concat (map (\<lambda>c. fst (print_event_condition c)) cs), Inr ())"
    by (rule block_map_ok)
  then show "print_event_goal_details (JObj d) =
     ([Print [Lit ''------ Event Goal -------''],
       Print [Lit ''Use Event Value  = '', Str (field d ''useEventValue'')]] @
      concat (map (\<lambda>c. fst (print_event_condition c)) cs), Inr ())"
    using d
    by (simp add: print_event_goal_details_def print_get_obj bind_def print_def skip_def
        lift_def for_each_def)
qed

theorem event_condition_fields_witness:
  "print_event_goal_details
     (JObj [(''useEventValue'', JBool True),
            (''eventConditions'', JArr
               [JObj [(''type'', JStr ''CATEGORY''), (''matchType'', JStr ''EXACT''),
                      (''expression'', JStr ''video'')],
                JObj [(''type'', JStr ''VALUE''), (''comparisonType'', JStr ''GREATER_THAN''),
                      (''comparisonValue'', JStr ''5'')]])]) =
     ([Print [Lit ''------ Event Goal -------''],
       Print [Lit ''Use Event Value  = '', Str (JBool True)],
       Print [Lit ''Type             = '', Str (JStr ''CATEGORY'')],
       Print [Lit ''Match Type       = '', Str (JStr ''EXACT'')],
       Print [Lit ''Expression       = '', Str (JStr ''video'')],
       Print [Lit ''Type             = '', Str (JStr ''VALUE'')],
       Print [Lit ''Comparison Type  = '', Str (JStr ''GREATER_THAN'')],
       Print [Lit ''Comparison Value = '', Str (JStr ''5'')]], Inr ())"
  using
    event_condition_fields
      [of "[(''type'', JStr ''CATEGORY''), (''matchType'', JStr ''EXACT''),
            (''expression'', JStr ''video'')]"
          "[(''useEventValue'', JBool True),
            (''eventConditions'', JArr
               [JObj [(''type'', JStr ''CATEGORY''), (''matchType'', JStr ''EXACT''),
                      (''expression'', JStr ''video'')],
                JObj [(''type'', JStr ''VALUE''), (''comparisonType'', JStr ''GREATER_THAN''),
                      (''comparisonValue'', JStr ''5'')]])]"
          "[JObj [(''type'', JStr ''CATEGORY''), (''matchType'', JStr ''EXACT''),
                  (''expression'', JStr ''video'')],
            JObj [(''type'', JStr ''VALUE''), (''comparisonType'', JStr ''GREATER_THAN''),
                  (''comparisonValue'', JStr ''5'')]]"]
    event_condition_fields
      [of "[(''type'', JStr ''VALUE''), (''comparisonType'', JStr ''GREATER_THAN''),
            (''comparisonValue'', JStr ''5'')]" "[]" "[]"]
  by (simp add: field_def)

text \<open>
  C1 (amended). Each formatter completes normally on a response whose items
  are absent or are a list of dictionaries in which every link sub-object the
  formatter prints (childLink for accounts, parentLink and childLink for web
  properties and profiles, parentLink for goals) is a dictionary, and, for a
  goal, the selected detail object is a dictionary with well-formed steps or
  conditions. A field missing from a dictionary is printed as \<^verbatim>\<open>None\<close>.
\<close>

theorem formatters_complete:
  "(list_or_absent account_ok r ''items'' \<longrightarrow> snd (print_accounts (JObj r)) = Inr ()) \<and>
   (list_or_absent webproperty_ok r ''items'' \<longrightarrow>
      snd (print_webproperties (JObj r)) = Inr ()) \<and>
   (list_or_absent profile_ok r ''items'' \<longrightarrow> snd (print_profiles (JObj r)) = Inr ()) \<and>
   (list_or_absent goal_ok r ''items'' \<longrightarrow> snd (print_goals (JObj r)) = Inr ()) \<and>
   (list_or_absent is_obj r ''items'' \<longrightarrow> snd (print_segments (JObj r)) = Inr ()) \<and>
   (map_of kvs key = None \<longrightarrow>
      print_get label (JObj kvs) key = ([Print [Lit label, Str JNull]], Inr ()))"
proof (intro conjI impI)
  assume a: "list_or_absent account_ok r ''items''"
  show "snd (print_accounts (JObj r)) = Inr ()"
    unfolding print_accounts_def
    by (rule snd_block_all)
      (simp add: snd_pagination print_def sentinel_ok loop_ok [OF a account_item_ok]
        del: py_get_default.simps)
next
  assume a: "list_or_absent webproperty_ok r ''items''"
  show "snd (print_webproperties (JObj r)) = Inr ()"
    unfolding print_webproperties_def
    by (rule snd_block_all)
      (simp add: snd_pagination print_def sentinel_ok loop_ok [OF a webproperty_item_ok]
        del: py_get_default.simps)
next
  assume a: "list_or_absent profile_ok r ''items''"
  show "snd (print_profiles (JObj r)) = Inr ()"
    unfolding print_profiles_def
    by (rule snd_block_all)
      (simp add: snd_pagination print_def sentinel_ok loop_ok [OF a profile_item_ok]
        del: py_get_default.simps)
next
  assume a: "list_or_absent goal_ok r ''items''"
  show "snd (print_goals (JObj r)) = Inr ()"
    unfolding print_goals_def
    by (rule snd_block_all)
      (simp add: snd_pagination print_def sentinel_ok loop_ok [OF a goal_item_ok]
        del: py_get_default.simps)
next
  assume a: "list_or_absent is_obj r ''items''"
  show "snd (print_segments (JObj r)) = Inr ()"
    unfolding print_segments_def
    by (rule snd_block_all)
      (simp add: snd_pagination print_def loop_ok [OF a segment_item_ok]
        del: py_get_default.simps)
next
  assume "map_of kvs key = None"
  then show "print_get label (JObj kvs) key = ([Print [Lit label, Str JNull]], Inr ())"
    by (simp add: print_get_obj field_def)
qed

theorem formatters_complete_witness:
  "snd (print_accounts (JObj [(''items'', JArr
      [JObj [(''parentLink'', JObj []), (''childLink'', JObj [])]])])) = Inr () \<and>
   snd (print_webproperties (JObj [(''items'', JArr
      [JObj [(''parentLink'', JObj []), (''childLink'', JObj [])]])])) = Inr () \<and>
   snd (print_profiles (JObj [(''items'', JArr
      [JObj [(''parentLink'', JObj []), (''childLink'', JObj [])]])])) = Inr () \<and>
   snd (print_goals (JObj [(''items'', JArr
      [JObj [(''parentLink'', JObj []), (''childLink'', JObj [])]])])) = Inr () \<and>
   snd (print_segments (JObj [(''items'', JArr
      [JObj [(''parentLink'', JObj []), (''childLink'', JObj [])]])])) = Inr () \<and>
   print_get ''Account Name    = '' (JObj [(''id'', JStr ''A1'')]) ''name'' =
     ([Print [Lit ''Account Name    = '', Str JNull]], Inr ())"
  using formatters_complete
    [of "[(''items'', JArr [JObj [(''parentLink'', JObj []), (''childLink'', JObj [])]])]"
        "[(''id'', JStr ''A1'')]" "''name''" "''Account Name    = ''"]
  by (simp add: list_or_absent_def account_ok_def webproperty_ok_def profile_ok_def goal_ok_def
      has_link_def field_def)

text \<open>
  C1 as stated fails: an account item without childLink makes the accounts
  formatter raise \<^verbatim>\<open>AttributeError\<close> after the six scalar lines of the item.
\<close>

theorem accounts_item_without_child_link:
  "map_of [(''id'', JStr ''A1'')] ''childLink'' = None \<and>
   print_accounts (JObj [(''items'', JArr [JObj [(''id'', JStr ''A1'')]])]) =
     ([Print [Lit ''------ Account Collection -------''],
       Print [Lit ''Items per page = '', Str JNull],
       Print [Lit ''Total Results  = '', Str JNull],
       Print [Lit ''Start Index    = '', Str JNull],
       Print [],
       Print [Lit ''Account ID      = '', Str (JStr ''A1'')],
       Print [Lit ''Kind            = '', Str JNull],
       Print [Lit ''Self Link       = '', Str JNull],
       Print [Lit ''Account Name    = '', Str JNull],
       Print [Lit ''Created         = '', Str JNull],
       Print [Lit ''Updated         = '', Str JNull]], Inl AttributeError)"
  by (simp add: print_accounts_def print_accounts_item_def pagination_obj print_get_def
      field_def bind_def print_def skip_def lift_def for_each_def get_def py_get_def)

text \<open>
  C3 (amended). For every goal the goal formatter enters at most one of the
  four detail sub-formatters. When the goal is a dictionary whose parentLink
  is a dictionary, it enters the first one, in the order UrlDestination,
  VisitTimeOnSite, VisitNumPages, Event, whose detail field has a truthy value
  (present and not empty), and none when no detail field is truthy.
\<close>

theorem goal_detail_dispatch:
  "length (entered (print_goals_item v)) \<le> 1 \<and>
   (is_obj (field g ''parentLink'') \<longrightarrow>
    entered (print_goals_item (JObj g)) =
     (if truthy (field g ''urlDestinationDetails'')
      then [Print [Lit ''------ Url Destination Goal -------'']]
      else if truthy (field g ''visitTimeOnSiteDetails'')
      then [Print [Lit ''------ Visit Time On Site Goal -------'']]
      else if truthy (field g ''visitNumPagesDetails'')
      then [Print [Lit ''------ Visit Num Pages Goal -------'']]
      else if truthy (field g ''eventDetails'')
      then [Print [Lit ''------ Event Goal -------'']]
      else []))"
proof (intro conjI impI)
  show "length (entered (print_goals_item v)) \<le> 1"
  proof (cases v)
    case (JObj kvs)
    show ?thesis
    proof (cases "is_obj (field kvs ''parentLink'')")
      case True
      then show ?thesis
        unfolding JObj by (simp add: entered_goal_obj)
    next
      case False
      then show ?thesis
        unfolding JObj by (simp add: entered_goal_no_parent)
    qed
  qed (simp_all add: entered_goal_other)
next
  assume "is_obj (field g ''parentLink'')"
  then show "entered (print_goals_item (JObj g)) =
     (if truthy (field g ''urlDestinationDetails'')
      then [Print [Lit ''------ Url Destination Goal -------'']]
      else if truthy (field g ''visitTimeOnSiteDetails'')
      then [Print [Lit ''------ Visit Time On Site Goal -------'']]
      else if truthy (field g ''visitNumPagesDetails'')
      then [Print [Lit ''------ Visit Num Pages Goal -------'']]
      else if truthy (field g ''eventDetails'')
      then [Print [Lit ''------ Event Goal -------'']]
      else [])"
    by (rule entered_goal_obj)
qed

theorem goal_detail_dispatch_witness:
  "is_obj (field [(''parentLink'', JObj []),
                  (''visitTimeOnSiteDetails'', JObj [(''comparisonType'', JStr ''GREATER_THAN'')]),
                  (''eventDetails'', JObj [(''useEventValue'', JBool True)])] ''parentLink'') \<and>
   entered (print_goals_item (JObj
      [(''parentLink'', JObj []),
       (''visitTimeOnSiteDetails'', JObj [(''comparisonType'', JStr ''GREATER_THAN'')]),
       (''eventDetails'', JObj [(''useEventValue'', JBool True)])])) =
     [Print [Lit ''------ Visit Time On Site Goal -------'']]"
  using goal_detail_dispatch
    [of "JNull" "[(''parentLink'', JObj []),
       (''visitTimeOnSiteDetails'', JObj [(''comparisonType'', JStr ''GREATER_THAN'')]),
       (''eventDetails'', JObj [(''useEventValue'', JBool True)])]"]
  by (simp add: field_def)

text \<open>
  C3 as stated fails: in this goal the first detail field present is
  urlDestinationDetails (an empty object), yet the sub-formatter entered is
  the Event one.
\<close>

theorem goal_first_present_not_selected:
  "map_of [(''parentLink'', JObj []), (''urlDestinationDetails'', JObj []),
           (''eventDetails'', JObj [(''useEventValue'', JBool True)])]
     ''urlDestinationDetails'' = Some (JObj []) \<and>
   entered (print_goals_item (JObj
      [(''parentLink'', JObj []), (''urlDestinationDetails'', JObj []),
       (''eventDetails'', JObj [(''useEventValue'', JBool True)])])) =
     [Print [Lit ''------ Event Goal -------'']]"
  by (simp add: entered_goal_obj field_def)

text \<open>
  C9. A detail field that is present with a falsy value (such as an empty
  object) is treated as if it were absent: removing it from the goal does not
  change what the goal formatter does. A goal whose four detail fields are all
  present but falsy enters no detail sub-formatter.
\<close>

theorem goal_detail_truthiness:
  "(d \<in> set detail_keys \<longrightarrow> map_of g d = Some v \<longrightarrow> \<not> truthy v \<longrightarrow>
      print_goals_item (JObj (remove_key d g)) = print_goals_item (JObj g)) \<and>
   ((\<forall>k \<in> set detail_keys. \<exists>w. map_of g k = Some w \<and> \<not> truthy w) \<longrightarrow>
      entered (print_goals_item (JObj g)) = [])"
proof (intro conjI impI)
  assume "d \<in> set detail_keys" "map_of g d = Some v" "\<not> truthy v"
  then show "print_goals_item (JObj (remove_key d g)) = print_goals_item (JObj g)"
    by (rule remove_falsy_detail)
next
  assume "\<forall>k \<in> set detail_keys. \<exists>w. map_of g k = Some w \<and> \<not> truthy w"
  then have f: "\<not> truthy (field g ''urlDestinationDetails'')"
    "\<not> truthy (field g ''visitTimeOnSiteDetails'')"
    "\<not> truthy (field g ''visitNumPagesDetails'')"
    "\<not> truthy (field g ''eventDetails'')"
    by (auto simp: detail_keys_def field_def)
  show "entered (print_goals_item (JObj g)) = []"
  proof (cases "is_obj (field g ''parentLink'')")
    case True
    with f show ?thesis by (simp add: entered_goal_obj)
  next
    case False
    then show ?thesis by (rule entered_goal_no_parent)
  qed
qed

theorem goal_detail_truthiness_witness:
  "print_goals_item (JObj (remove_key ''urlDestinationDetails''
      [(''parentLink'', JObj []), (''urlDestinationDetails'', JObj []),
       (''visitTimeOnSiteDetails'', JObj []), (''visitNumPagesDetails'', JObj []),
       (''eventDetails'', JObj [])])) =
   print_goals_item (JObj
      [(''parentLink'', JObj []), (''urlDestinationDetails'', JObj []),
       (''visitTimeOnSiteDetails'', JObj []), (''visitNumPagesDetails'', JObj []),
       (''eventDetails'', JObj [])]) \<and>
   entered (print_goals_item (JObj
      [(''parentLink'', JObj []), (''urlDestinationDetails'', JObj []),
       (''visitTimeOnSiteDetails'', JObj []), (''visitNumPagesDetails'', JObj []),
       (''eventDetails'', JObj [])])) = []"
  using goal_detail_truthiness
    [of "''urlDestinationDetails''"
        "[(''parentLink'', JObj []), (''urlDestinationDetails'', JObj []),
          (''visitTimeOnSiteDetails'', JObj []), (''visitNumPagesDetails'', JObj []),
          (''eventDetails'', JObj [])]" "JObj []"]
  by (simp add: detail_keys_def)

section \<open>The traversal: lemmas\<close>

lemma traverse_levels:
  "traverse_hiearchy s =
     bind (execute s AccountsList) (\<lambda>accounts. block
       [print_accounts accounts,
        webproperties_level s accounts,
        bind (execute s SegmentsList) print_segments])"
  unfolding traverse_hiearchy_def webproperties_level_def profiles_level_def
    goals_level_def descend_def
  by (rule refl)

lemma descend_first_key:
  "descend response k =
     (case first_key response of
        Inl e \<Rightarrow> ([], Inl e)
      | Inr None \<Rightarrow> skip
      | Inr (Some i) \<Rightarrow> k i)"
  by (simp add: descend_def first_key_def get_def lift_def bind_def split: sum.splits)

lemma first_key_Some:
  assumes "first_key response = Inr (Some k)"
  shows "\<exists>r x xs. response = JObj r \<and> map_of r ''items'' = Some (JArr (x # xs)) \<and>
           py_get x ''id'' = Inr k"
proof -
  from assms obtain r where r: "response = JObj r"
    by (cases response) (simp_all add: first_key_def py_get_def)
  from assms r have t: "truthy (field r ''items'')"
    by (simp add: first_key_def py_get_obj split: if_splits)
  from assms r t obtain x where x: "py_index0 (field r ''items'') = Inr x"
    and k: "py_get x ''id'' = Inr k"
    by (auto simp: first_key_def py_get_obj split: sum.splits)
  from k obtain o' where "x = JObj o'"
    by (cases x) (simp_all add: py_get_def)
  with x obtain xs where "field r ''items'' = JArr (x # xs)"
    by (cases "field r ''items''" rule: py_index0.cases) auto
  then have "map_of r ''items'' = Some (JArr (x # xs))"
    by (auto simp: field_def split: option.splits)
  with r k show ?thesis by blast
qed

lemma first_key_None:
  assumes "map_of r ''items'' = None \<or> map_of r ''items'' = Some (JArr [])"
  shows "first_key (JObj r) = Inr None"
  using assms by (auto simp: first_key_def py_get_obj field_def)

lemmas formatter_defs = print_accounts_def print_accounts_item_def print_webproperties_def
  print_webproperties_item_def print_profiles_def print_profiles_item_def print_goals_def
  print_goals_item_def print_segments_def print_segments_item_def print_pagination_info_def
  print_url_destination_goal_details_def print_url_destination_goal_step_def
  print_visit_time_on_site_goal_details_def print_visit_num_pages_goal_details_def
  print_event_goal_details_def print_event_condition_def

lemma formatters_print:
  "all_events is_print (print_accounts v)"
  "all_events is_print (print_webproperties v)"
  "all_events is_print (print_profiles v)"
  "all_events is_print (print_goals v)"
  "all_events is_print (print_segments v)"
  unfolding formatter_defs
  by (intro all_events_intros; simp)+

lemma halts_print_only: "all_events is_print m \<Longrightarrow> halts_on_error s m"
  by (auto simp: halts_on_error_def all_events_def list_all_iff)

lemma halts_bind:
  assumes "halts_on_error s m" and "\<And>x. halts_on_error s (f x)"
  shows "halts_on_error s (bind m f)"
  unfolding halts_on_error_def
proof (intro allI impI)
  fix q e
  assume q: "Request q \<in> set (fst (bind m f))" and e: "s q = Inl e"
  show "snd (bind m f) = Inl e \<and> fst (bind m f) \<noteq> [] \<and> last (fst (bind m f)) = Request q"
  proof (cases "Request q \<in> set (fst m)")
    case True
    with assms(1) e have "snd m = Inl e" "fst m \<noteq> []" "last (fst m) = Request q"
      by (auto simp: halts_on_error_def)
    then show ?thesis by (simp add: fst_bind snd_bind)
  next
    case False
    with q obtain x where x: "snd m = Inr x" and qx: "Request q \<in> set (fst (f x))"
      by (cases "snd m") (auto simp: fst_bind)
    from assms(2) [of x] qx e
    have "snd (f x) = Inl e" "fst (f x) \<noteq> []" "last (fst (f x)) = Request q"
      by (auto simp: halts_on_error_def)
    with x show ?thesis by (simp add: fst_bind snd_bind)
  qed
qed

lemma halts_block_Nil: "halts_on_error s (block [])"
  by (simp add: halts_on_error_def skip_def)

lemma halts_block_Cons:
  "halts_on_error s m \<Longrightarrow> halts_on_error s (block ms) \<Longrightarrow> halts_on_error s (block (m # ms))"
  by (simp add: halts_bind)

lemma halts_execute: "halts_on_error s (execute s q)"
  by (simp add: halts_on_error_def execute_def)

lemma halts_trivial:
  "halts_on_error s skip" "halts_on_error s (lift r)" "halts_on_error s (get v key)"
  by (simp_all add: halts_on_error_def skip_def lift_def get_def)

lemma halts_if:
  "halts_on_error s a \<Longrightarrow> halts_on_error s b \<Longrightarrow> halts_on_error s (if c then a else b)"
  by simp

lemma halts_traverse: "halts_on_error s (traverse_hiearchy s)"
  unfolding traverse_hiearchy_def
  by (intro halts_bind halts_block_Cons halts_block_Nil halts_execute halts_trivial halts_if
      halts_print_only formatters_print)

lemma no_request:
  "Request q \<notin> set (fst (print_accounts v))"
  "Request q \<notin> set (fst (print_webproperties v))"
  "Request q \<notin> set (fst (print_profiles v))"
  "Request q \<notin> set (fst (print_goals v))"
  "Request q \<notin> set (fst (print_segments v))"
  using formatters_print [of v] by (auto simp: all_events_def list_all_iff)

lemma in_bind:
  "e \<in> set (fst (bind m f)) \<longleftrightarrow>
     e \<in> set (fst m) \<or> (\<exists>x. snd m = Inr x \<and> e \<in> set (fst (f x)))"
  by (cases "snd m") (auto simp: fst_bind)

lemma in_execute: "e \<in> set (fst (execute s q)) \<longleftrightarrow> e = Request q"
  by (auto simp: execute_def)

lemma snd_execute: "snd (execute s q) = s q"
  by (simp add: execute_def)

lemma in_skip: "e \<notin> set (fst skip)"
  by (simp add: skip_def)

lemma goals_level_request:
  assumes "Request q \<in> set (fst (goals_level s a w profiles))"
  shows "\<exists>p. first_key profiles = Inr (Some p) \<and> q = GoalsList a w p"
  using assms
  by (auto simp: goals_level_def descend_first_key in_bind in_execute no_request in_skip
      split: sum.splits option.splits)

lemma profiles_level_request:
  assumes "Request q \<in> set (fst (profiles_level s a webproperties))"
  shows "\<exists>w. first_key webproperties = Inr (Some w) \<and>
           (q = ProfilesList a w \<or>
            (\<exists>profiles. s (ProfilesList a w) = Inr profiles \<and>
               snd (print_profiles profiles) = Inr () \<and>
               Request q \<in> set (fst (goals_level s a w profiles))))"
  using assms
  by (auto simp: profiles_level_def descend_first_key in_bind in_execute snd_execute
      no_request in_skip split: sum.splits option.splits)

lemma webproperties_level_request:
  assumes "Request q \<in> set (fst (webproperties_level s accounts))"
  shows "\<exists>a. first_key accounts = Inr (Some a) \<and>
           (q = WebpropertiesList a \<or>
            (\<exists>webproperties. s (WebpropertiesList a) = Inr webproperties \<and>
               snd (print_webproperties webproperties) = Inr () \<and>
               Request q \<in> set (fst (profiles_level s a webproperties))))"
  using assms
  by (auto simp: webproperties_level_def descend_first_key in_bind in_execute snd_execute
      no_request in_skip split: sum.splits option.splits)

lemma traverse_request:
  assumes "Request q \<in> set (fst (traverse_hiearchy s))"
  shows "q = AccountsList \<or>
         (\<exists>accounts. s AccountsList = Inr accounts \<and> snd (print_accounts accounts) = Inr () \<and>
            (Request q \<in> set (fst (webproperties_level s accounts)) \<or>
             snd (webproperties_level s accounts) = Inr () \<and> q = SegmentsList))"
  using assms
  by (auto simp: traverse_levels in_bind in_execute snd_execute no_request in_skip)

lemma no_diagnostic_traverse: "all_events (\<lambda>e. \<not> is_diagnostic e) (traverse_hiearchy s)"
  unfolding traverse_hiearchy_def formatter_defs
  by (intro all_events_intros; simp)

lemma handler_caught:
  assumes "caught e"
  shows "\<exists>l. handler e = ([Print l], Inr ()) \<and> is_diagnostic (Print l)"
  using assms by (cases e) (simp_all add: print_def)

lemma main_caught:
  assumes "snd (traverse_hiearchy s) = Inl e" and "caught e"
  shows "main s = (fst (traverse_hiearchy s) @ fst (handler e), Inr ())"
proof -
  from handler_caught [OF assms(2)] obtain l where "handler e = ([Print l], Inr ())"
    by blast
  with assms(1) show ?thesis by (simp add: main_def)
qed

lemma caught_error_reported:
  assumes "Request q \<in> set (fst (traverse_hiearchy s))" and "s q = Inl e" and "caught e"
  shows "snd (main s) = Inr ()"
    and "fst (main s) = fst (traverse_hiearchy s) @ fst (handler e)"
    and "last (fst (traverse_hiearchy s)) = Request q"
    and "filter is_diagnostic (fst (main s)) = fst (handler e)"
    and "length (fst (handler e)) = 1"
proof -
  from halts_traverse [of s] assms(1,2)
  have e: "snd (traverse_hiearchy s) = Inl e" and l: "last (fst (traverse_hiearchy s)) = Request q"
    by (auto simp: halts_on_error_def)
  from main_caught [OF e assms(3)]
  have m: "main s = (fst (traverse_hiearchy s) @ fst (handler e), Inr ())" .
  from handler_caught [OF assms(3)] obtain d
    where d: "handler e = ([Print d], Inr ())" "is_diagnostic (Print d)"
    by blast
  have "filter is_diagnostic (fst (traverse_hiearchy s)) = []"
    using no_diagnostic_traverse [of s]
    by (simp add: all_events_def list_all_iff filter_empty_conv)
  with m d l show "snd (main s) = Inr ()"
    and "fst (main s) = fst (traverse_hiearchy s) @ fst (handler e)"
    and "last (fst (traverse_hiearchy s)) = Request q"
    and "filter is_diagnostic (fst (main s)) = fst (handler e)"
    and "length (fst (handler e)) = 1"
    by simp_all
qed

lemma first_key_run:
  assumes "first_key accounts = Inr (Some a)"
  shows "webproperties_level s accounts =
           bind (execute s (WebpropertiesList a)) (\<lambda>webproperties.
             block [print_webproperties webproperties, profiles_level s a webproperties])"
  using assms by (simp add: webproperties_level_def descend_first_key)

lemma webproperties_error_run:
  assumes acc: "s AccountsList = Inr accounts"
    and req: "Request (WebpropertiesList a) \<in> set (fst (traverse_hiearchy s))"
    and err: "s (WebpropertiesList a) = Inl e"
  shows "traverse_hiearchy s =
           (Request AccountsList # fst (print_accounts accounts) @ [Request (WebpropertiesList a)],
            Inl e)"
proof -
  from traverse_request [OF req] acc
  have pa: "snd (print_accounts accounts) = Inr ()"
    and w: "Request (WebpropertiesList a) \<in> set (fst (webproperties_level s accounts))"
    by auto
  from webproperties_level_request [OF w] err
  have k: "first_key accounts = Inr (Some a)"
    by (auto dest!: profiles_level_request goals_level_request)
  have "webproperties_level s accounts = ([Request (WebpropertiesList a)], Inl e)"
    by (simp add: first_key_run [OF k] execute_def err bind_def)
  with acc pa show ?thesis
    by (simp add: traverse_levels execute_def bind_def)
qed

lemma walk_no_segments:
  "all_events (\<lambda>e. e \<notin> set segments_events) (print_accounts v)"
  "all_events (\<lambda>e. e \<notin> set segments_events) (webproperties_level s v)"
  unfolding webproperties_level_def profiles_level_def goals_level_def descend_def formatter_defs
  by (intro all_events_intros; simp add: segments_events_def)+

lemma filter_header_block:
  assumes "P (Print l)" and "all_events (\<lambda>e. \<not> P e) (block ms)"
  shows "filter P (fst (block (print l # ms))) = [Print l]"
proof -
  have "filter P (fst (block ms)) = []"
    using assms(2) by (simp add: all_events_def list_all_iff filter_empty_conv)
  with assms(1) show ?thesis
    by (simp add: fst_bind print_def)
qed

lemma segments_header_once:
  "filter (\<lambda>e. e \<in> set segments_events) (fst (print_segments v)) =
     [Print [Lit ''------ Segments Collection -------'']]"
  unfolding print_segments_def print_segments_item_def print_pagination_info_def
  by (rule filter_header_block, simp add: segments_events_def)
    (intro all_events_intros; simp add: segments_events_def)

lemma segments_after_walk:
  assumes "snd (traverse_hiearchy s) = Inr ()"
  shows "\<exists>walk segments. s SegmentsList = Inr segments \<and>
           fst (traverse_hiearchy s) = walk @ Request SegmentsList # fst (print_segments segments) \<and>
           list_all (\<lambda>e. e \<notin> set segments_events) walk"
proof -
  from assms obtain accounts where acc: "s AccountsList = Inr accounts"
    by (cases "s AccountsList") (simp_all add: traverse_levels snd_bind execute_def)
  from assms acc have pa: "snd (print_accounts accounts) = Inr ()"
    by (cases "snd (print_accounts accounts)") (simp_all add: traverse_levels snd_bind execute_def)
  from assms acc pa have w: "snd (webproperties_level s accounts) = Inr ()"
    by (cases "snd (webproperties_level s accounts)")
      (simp_all add: traverse_levels snd_bind execute_def)
  from assms acc pa w obtain segments where seg: "s SegmentsList = Inr segments"
    by (cases "s SegmentsList") (simp_all add: traverse_levels snd_bind execute_def)
  from assms acc pa w seg have ps: "snd (print_segments segments) = Inr ()"
    by (cases "snd (print_segments segments)")
      (simp_all add: traverse_levels snd_bind execute_def)
  let ?walk = "Request AccountsList # fst (print_accounts accounts) @
                 fst (webproperties_level s accounts)"
  have "fst (traverse_hiearchy s) = ?walk @ Request SegmentsList # fst (print_segments segments)"
    using acc pa w seg ps by (simp add: traverse_levels fst_bind snd_bind execute_def skip_def)
  moreover have "list_all (\<lambda>e. e \<notin> set segments_events) ?walk"
    using walk_no_segments(1) [of accounts] walk_no_segments(2) [of s accounts]
    by (simp add: all_events_def segments_events_def)
  ultimately show ?thesis using seg by blast
qed

lemma requests_append: "requests (xs @ ys) = requests xs @ requests ys"
  by (induction xs rule: requests.induct) simp_all

lemma requests_print_only: "all_events is_print m \<Longrightarrow> requests (fst m) = []"
proof -
  have "list_all is_print t \<Longrightarrow> requests t = []" for t
    by (induction t rule: requests.induct) simp_all
  then show "all_events is_print m \<Longrightarrow> requests (fst m) = []"
    by (simp add: all_events_def)
qed

lemma no_items_requests:
  assumes acc: "s AccountsList = Inr (JObj r)"
    and none: "map_of r ''items'' = None \<or> map_of r ''items'' = Some (JArr [])"
  shows "requests (fst (traverse_hiearchy s)) = [AccountsList, SegmentsList]"
proof -
  have pa: "snd (print_accounts (JObj r)) = Inr ()"
    by (simp add: no_items_sentinel(1) [OF none])
  have w: "webproperties_level s (JObj r) = ([], Inr ())"
    by (simp add: webproperties_level_def descend_first_key first_key_None [OF none] skip_def)
  have "fst (traverse_hiearchy s) =
          Request AccountsList # fst (print_accounts (JObj r)) @
          Request SegmentsList #
          (case s SegmentsList of Inl e \<Rightarrow> [] | Inr v \<Rightarrow> fst (print_segments v))"
    using acc pa w
    by (cases "s SegmentsList")
      (simp_all add: traverse_levels fst_bind snd_bind execute_def skip_def split: sum.splits)
  then show ?thesis
    by (cases "s SegmentsList")
      (simp_all add: requests_append requests_print_only formatters_print)
qed

lemma agree_bind_cong:
  assumes "agree s1 s2 (bind m1 f1)"
    and "agree s1 s2 m1 \<Longrightarrow> m1 = m2"
    and "\<And>x. snd m1 = Inr x \<Longrightarrow> agree s1 s2 (f1 x) \<Longrightarrow> f1 x = f2 x"
  shows "bind m1 f1 = bind m2 f2"
proof -
  from assms(1) have "agree s1 s2 m1"
    by (simp add: agree_def in_bind)
  then have m: "m1 = m2" by (rule assms(2))
  show ?thesis
  proof (cases "snd m1")
    case (Inl e)
    with m show ?thesis by (simp add: bind_def)
  next
    case (Inr x)
    with assms(1) have "agree s1 s2 (f1 x)"
      by (simp add: agree_def in_bind)
    with Inr have "f1 x = f2 x" by (rule assms(3))
    with m Inr show ?thesis by (simp add: bind_def)
  qed
qed

lemma agree_execute: "agree s1 s2 (execute s1 q) \<Longrightarrow> execute s1 q = execute s2 q"
  by (simp add: agree_def execute_def)

lemma agree_block2:
  assumes "agree s1 s2 (block [m, n1])" and "agree s1 s2 n1 \<Longrightarrow> n1 = n2"
  shows "block [m, n1] = block [m, n2]"
  unfolding block.simps
  using assms(1) unfolding block.simps
proof (rule agree_bind_cong)
  show "m = m" ..
next
  fix x
  assume "agree s1 s2 (bind n1 (\<lambda>_. skip))"
  then have "agree s1 s2 n1"
    by (simp add: agree_def in_bind)
  then have "n1 = n2" by (rule assms(2))
  then show "bind n1 (\<lambda>_. skip) = bind n2 (\<lambda>_. skip)"
    by simp
qed

lemma agree_descend:
  assumes "agree s1 s2 (descend v k1)"
    and "\<And>i. agree s1 s2 (k1 i) \<Longrightarrow> k1 i = k2 i"
  shows "descend v k1 = descend v k2"
  using assms by (auto simp: descend_first_key split: sum.splits option.splits)

lemma goals_level_agree:
  assumes "agree s1 s2 (goals_level s1 a w profiles)"
  shows "goals_level s1 a w profiles = goals_level s2 a w profiles"
  using assms unfolding goals_level_def
proof (rule agree_descend)
  fix p
  assume "agree s1 s2 (bind (execute s1 (GoalsList a w p)) print_goals)"
  then show "bind (execute s1 (GoalsList a w p)) print_goals =
             bind (execute s2 (GoalsList a w p)) print_goals"
    by (rule agree_bind_cong) (erule agree_execute, rule refl)
qed

lemma profiles_level_agree:
  assumes "agree s1 s2 (profiles_level s1 a webproperties)"
  shows "profiles_level s1 a webproperties = profiles_level s2 a webproperties"
  using assms unfolding profiles_level_def
proof (rule agree_descend)
  fix w
  assume "agree s1 s2 (bind (execute s1 (ProfilesList a w)) (\<lambda>profiles.
       block [print_profiles profiles, goals_level s1 a w profiles]))"
  then show "bind (execute s1 (ProfilesList a w)) (\<lambda>profiles.
       block [print_profiles profiles, goals_level s1 a w profiles]) =
     bind (execute s2 (ProfilesList a w)) (\<lambda>profiles.
       block [print_profiles profiles, goals_level s2 a w profiles])"
    by (rule agree_bind_cong)
      (erule agree_execute, erule agree_block2, erule goals_level_agree)
qed

lemma webproperties_level_agree:
  assumes "agree s1 s2 (webproperties_level s1 accounts)"
  shows "webproperties_level s1 accounts = webproperties_level s2 accounts"
  using assms unfolding webproperties_level_def
proof (rule agree_descend)
  fix a
  assume "agree s1 s2 (bind (execute s1 (WebpropertiesList a)) (\<lambda>webproperties.
       block [print_webproperties webproperties, profiles_level s1 a webproperties]))"
  then show "bind (execute s1 (WebpropertiesList a)) (\<lambda>webproperties.
       block [print_webproperties webproperties, profiles_level s1 a webproperties]) =
     bind (execute s2 (WebpropertiesList a)) (\<lambda>webproperties.
       block [print_webproperties webproperties, profiles_level s2 a webproperties])"
    by (rule agree_bind_cong)
      (erule agree_execute, erule agree_block2, erule profiles_level_agree)
qed

lemma traverse_agree:
  assumes "agree s1 s2 (traverse_hiearchy s1)"
  shows "traverse_hiearchy s1 = traverse_hiearchy s2"
  using assms unfolding traverse_levels block.simps
proof (rule agree_bind_cong)
  assume "agree s1 s2 (execute s1 AccountsList)"
  then show "execute s1 AccountsList = execute s2 AccountsList"
    by (rule agree_execute)
next
  fix accounts
  assume "agree s1 s2 (bind (print_accounts accounts) (\<lambda>_.
      bind (webproperties_level s1 accounts) (\<lambda>_.
      bind (bind (execute s1 SegmentsList) print_segments) (\<lambda>_. skip))))"
  then show "bind (print_accounts accounts) (\<lambda>_.
      bind (webproperties_level s1 accounts) (\<lambda>_.
      bind (bind (execute s1 SegmentsList) print_segments) (\<lambda>_. skip))) =
    bind (print_accounts accounts) (\<lambda>_.
      bind (webproperties_level s2 accounts) (\<lambda>_.
      bind (bind (execute s2 SegmentsList) print_segments) (\<lambda>_. skip)))"
  proof (rule agree_bind_cong)
    show "print_accounts accounts = print_accounts accounts" ..
  next
    fix x :: unit
    assume "agree s1 s2 (bind (webproperties_level s1 accounts) (\<lambda>_.
      bind (bind (execute s1 SegmentsList) print_segments) (\<lambda>_. skip)))"
    then show "bind (webproperties_level s1 accounts) (\<lambda>_.
        bind (bind (execute s1 SegmentsList) print_segments) (\<lambda>_. skip)) =
      bind (webproperties_level s2 accounts) (\<lambda>_.
        bind (bind (execute s2 SegmentsList) print_segments) (\<lambda>_. skip))"
    proof (rule agree_bind_cong)
      assume "agree s1 s2 (webproperties_level s1 accounts)"
      then show "webproperties_level s1 accounts = webproperties_level s2 accounts"
        by (rule webproperties_level_agree)
    next
      fix y :: unit
      assume "agree s1 s2 (bind (bind (execute s1 SegmentsList) print_segments) (\<lambda>_. skip))"
      then show "bind (bind (execute s1 SegmentsList) print_segments) (\<lambda>_. skip) =
        bind (bind (execute s2 SegmentsList) print_segments) (\<lambda>_. skip)"
      proof (rule agree_bind_cong)
        assume "agree s1 s2 (bind (execute s1 SegmentsList) print_segments)"
        then show "bind (execute s1 SegmentsList) print_segments =
          bind (execute s2 SegmentsList) print_segments"
          by (rule agree_bind_cong) (erule agree_execute, rule refl)
      qed (rule refl)
    qed
  qed
qed

lemma main_agree:
  assumes "agree s1 s2 (traverse_hiearchy s1)"
  shows "main s1 = main s2"
  unfolding main_def traverse_agree [OF assms]
  by (rule refl)

lemma bind_eval: "bind (t, Inr x) f = (case f x of (t', r) \<Rightarrow> (t @ t', r))"
  by (simp add: bind_def split: prod.splits)

lemmas eval_defs = bind_eval bind_Inl print_def execute_def get_def lift_def skip_def
  for_each_def print_get_def py_get_def

lemma in_requests: "Request q \<in> set t \<longleftrightarrow> q \<in> set (requests t)"
  by (induction t rule: requests.induct) auto

lemma example_run:
  "(case traverse_hiearchy example_service of
      (t, r) \<Rightarrow>
        requests t =
          [AccountsList, WebpropertiesList (JStr ''A1''),
           ProfilesList (JStr ''A1'') (JStr ''W1''),
           GoalsList (JStr ''A1'') (JStr ''W1'') (JStr ''P1''), SegmentsList] \<and>
        r = Inr ())"
  by (simp add: traverse_hiearchy_def formatter_defs eval_defs example_service_def)

lemma example_requests:
  "requests (fst (traverse_hiearchy example_service)) =
     [AccountsList, WebpropertiesList (JStr ''A1''),
      ProfilesList (JStr ''A1'') (JStr ''W1''),
      GoalsList (JStr ''A1'') (JStr ''W1'') (JStr ''P1''), SegmentsList]"
  "snd (traverse_hiearchy example_service) = Inr ()"
  using example_run by (simp_all split: prod.splits)

lemma failing_requests:
  "requests (fst (traverse_hiearchy failing_service)) =
     [AccountsList, WebpropertiesList (JStr ''A1'')]"
  by (simp add: traverse_hiearchy_def formatter_defs eval_defs example_service_def
      failing_service_def)

section \<open>Properties of the traversal\<close>

text \<open>
  C4. A list call for a deeper level is made only when the parent response is
  a dictionary whose item list is a non-empty list, and the key passed is the
  id of the item at index 0 of that list: the accounts response for the web
  properties call, the web properties response (for that account) for the
  profiles call, the profiles response for the goals call.
\<close>

theorem parent_key_from_first_item:
  "(Request (WebpropertiesList a) \<in> set (fst (traverse_hiearchy s)) \<longrightarrow>
      (\<exists>r x xs. s AccountsList = Inr (JObj r) \<and>
         map_of r ''items'' = Some (JArr (x # xs)) \<and> py_get x ''id'' = Inr a)) \<and>
   (Request (ProfilesList a w) \<in> set (fst (traverse_hiearchy s)) \<longrightarrow>
      (\<exists>r x xs. s AccountsList = Inr (JObj r) \<and>
         map_of r ''items'' = Some (JArr (x # xs)) \<and> py_get x ''id'' = Inr a) \<and>
      (\<exists>r x xs. s (WebpropertiesList a) = Inr (JObj r) \<and>
         map_of r ''items'' = Some (JArr (x # xs)) \<and> py_get x ''id'' = Inr w)) \<and>
   (Request (GoalsList a w p) \<in> set (fst (traverse_hiearchy s)) \<longrightarrow>
      (\<exists>r x xs. s AccountsList = Inr (JObj r) \<and>
         map_of r ''items'' = Some (JArr (x # xs)) \<and> py_get x ''id'' = Inr a) \<and>
      (\<exists>r x xs. s (WebpropertiesList a) = Inr (JObj r) \<and>
         map_of r ''items'' = Some (JArr (x # xs)) \<and> py_get x ''id'' = Inr w) \<and>
      (\<exists>r x xs. s (ProfilesList a w) = Inr (JObj r) \<and>
         map_of r ''items'' = Some (JArr (x # xs)) \<and> py_get x ''id'' = Inr p))"
proof (intro conjI impI)
  assume "Request (WebpropertiesList a) \<in> set (fst (traverse_hiearchy s))"
  then obtain accounts where "s AccountsList = Inr accounts"
    and "first_key accounts = Inr (Some a)"
    by (auto dest!: traverse_request webproperties_level_request profiles_level_request
        goals_level_request)
  then show "\<exists>r x xs. s AccountsList = Inr (JObj r) \<and>
         map_of r ''items'' = Some (JArr (x # xs)) \<and> py_get x ''id'' = Inr a"
    by (auto dest: first_key_Some)
next
  assume "Request (ProfilesList a w) \<in> set (fst (traverse_hiearchy s))"
  then obtain accounts webproperties where "s AccountsList = Inr accounts"
    and "first_key accounts = Inr (Some a)"
    and "s (WebpropertiesList a) = Inr webproperties"
    and "first_key webproperties = Inr (Some w)"
    by (auto dest!: traverse_request webproperties_level_request profiles_level_request
        goals_level_request)
  then show "\<exists>r x xs. s AccountsList = Inr (JObj r) \<and>
         map_of r ''items'' = Some (JArr (x # xs)) \<and> py_get x ''id'' = Inr a"
    and "\<exists>r x xs. s (WebpropertiesList a) = Inr (JObj r) \<and>
         map_of r ''items'' = Some (JArr (x # xs)) \<and> py_get x ''id'' = Inr w"
    by (auto dest: first_key_Some)
next
  assume "Request (GoalsList a w p) \<in> set (fst (traverse_hiearchy s))"
  then obtain accounts webproperties profiles where "s AccountsList = Inr accounts"
    and "first_key accounts = Inr (Some a)"
    and "s (WebpropertiesList a) = Inr webproperties"
    and "first_key webproperties = Inr (Some w)"
    and "s (ProfilesList a w) = Inr profiles"
    and "first_key profiles = Inr (Some p)"
    by (auto dest!: traverse_request webproperties_level_request profiles_level_request
        goals_level_request)
  then show "\<exists>r x xs. s AccountsList = Inr (JObj r) \<and>
         map_of r ''items'' = Some (JArr (x # xs)) \<and> py_get x ''id'' = Inr a"
    and "\<exists>r x xs. s (WebpropertiesList a) = Inr (JObj r) \<and>
         map_of r ''items'' = Some (JArr (x # xs)) \<and> py_get x ''id'' = Inr w"
    and "\<exists>r x xs. s (ProfilesList a w) = Inr (JObj r) \<and>
         map_of r ''items'' = Some (JArr (x # xs)) \<and> py_get x ''id'' = Inr p"
    by (auto dest: first_key_Some)
qed

theorem parent_key_from_first_item_witness:
  "Request (WebpropertiesList (JStr ''A1'')) \<in> set (fst (traverse_hiearchy example_service)) \<and>
   Request (ProfilesList (JStr ''A1'') (JStr ''W1''))
     \<in> set (fst (traverse_hiearchy example_service)) \<and>
   Request (GoalsList (JStr ''A1'') (JStr ''W1'') (JStr ''P1''))
     \<in> set (fst (traverse_hiearchy example_service)) \<and>
   (\<exists>r x xs. example_service AccountsList = Inr (JObj r) \<and>
      map_of r ''items'' = Some (JArr (x # xs)) \<and> py_get x ''id'' = Inr (JStr ''A1'')) \<and>
   (\<exists>r x xs. example_service (WebpropertiesList (JStr ''A1'')) = Inr (JObj r) \<and>
      map_of r ''items'' = Some (JArr (x # xs)) \<and> py_get x ''id'' = Inr (JStr ''W1'')) \<and>
   (\<exists>r x xs. example_service (ProfilesList (JStr ''A1'') (JStr ''W1'')) = Inr (JObj r) \<and>
      map_of r ''items'' = Some (JArr (x # xs)) \<and> py_get x ''id'' = Inr (JStr ''P1''))"
  using parent_key_from_first_item
    [of "JStr ''A1''" example_service "JStr ''W1''" "JStr ''P1''"]
  by (simp add: in_requests example_requests)

text \<open>
  C5. When a list call that the traversal makes is answered with one of the
  three exceptions that \<^verbatim>\<open>main\<close> catches, that call is the last event of the
  traversal, \<^verbatim>\<open>main\<close> prints exactly one diagnostic line after it (the only
  diagnostic line of the run) and returns normally. For a transport error the
  line holds the status and the reason. A transport error on the web
  properties call leaves only the accounts section before the diagnostic.
\<close>

theorem main_reports_error:
  "(Request q \<in> set (fst (traverse_hiearchy s)) \<longrightarrow> s q = Inl e \<longrightarrow> caught e \<longrightarrow>
      snd (main s) = Inr () \<and>
      fst (main s) = fst (traverse_hiearchy s) @ fst (handler e) \<and>
      last (fst (traverse_hiearchy s)) = Request q \<and>
      filter is_diagnostic (fst (main s)) = fst (handler e) \<and>
      length (fst (handler e)) = 1) \<and>
   handler (HttpError status reason) =
     ([Print [Lit ''Arg, there was an API error : '', Str (JInt status),
              Lit '' : '', Str (JStr reason)]], Inr ()) \<and>
   (s AccountsList = Inr accounts \<longrightarrow>
    Request (WebpropertiesList a) \<in> set (fst (traverse_hiearchy s)) \<longrightarrow>
    s (WebpropertiesList a) = Inl (HttpError status reason) \<longrightarrow>
      main s =
        (Request AccountsList # fst (print_accounts accounts) @
         [Request (WebpropertiesList a),
          Print [Lit ''Arg, there was an API error : '', Str (JInt status),
                 Lit '' : '', Str (JStr reason)]], Inr ()))"
proof (intro conjI impI)
  assume "Request q \<in> set (fst (traverse_hiearchy s))" "s q = Inl e" "caught e"
  then show "snd (main s) = Inr ()"
    and "fst (main s) = fst (traverse_hiearchy s) @ fst (handler e)"
    and "last (fst (traverse_hiearchy s)) = Request q"
    and "filter is_diagnostic (fst (main s)) = fst (handler e)"
    and "length (fst (handler e)) = 1"
    by (rule caught_error_reported)+
next
  show "handler (HttpError status reason) =
     ([Print [Lit ''Arg, there was an API error : '', Str (JInt status),
              Lit '' : '', Str (JStr reason)]], Inr ())"
    by (simp add: print_def)
next
  assume "s AccountsList = Inr accounts"
    and "Request (WebpropertiesList a) \<in> set (fst (traverse_hiearchy s))"
    and "s (WebpropertiesList a) = Inl (HttpError status reason)"
  then have "traverse_hiearchy s =
      (Request AccountsList # fst (print_accounts accounts) @ [Request (WebpropertiesList a)],
       Inl (HttpError status reason))"
    by (rule webproperties_error_run)
  then show "main s =
        (Request AccountsList # fst (print_accounts accounts) @
         [Request (WebpropertiesList a),
          Print [Lit ''Arg, there was an API error : '', Str (JInt status),
                 Lit '' : '', Str (JStr reason)]], Inr ())"
    by (simp add: main_def print_def)
qed

theorem main_reports_error_witness:
  "Request (WebpropertiesList (JStr ''A1'')) \<in> set (fst (traverse_hiearchy failing_service)) \<and>
   failing_service (WebpropertiesList (JStr ''A1'')) =
     Inl (HttpError 403 ''insufficient permission'') \<and>
   caught (HttpError 403 ''insufficient permission'') \<and>
   snd (main failing_service) = Inr () \<and>
   last (fst (traverse_hiearchy failing_service)) = Request (WebpropertiesList (JStr ''A1'')) \<and>
   filter is_diagnostic (fst (main failing_service)) =
     [Print [Lit ''Arg, there was an API error : '', Str (JInt 403),
             Lit '' : '', Str (JStr ''insufficient permission'')]] \<and>
   main failing_service =
     (Request AccountsList #
      fst (print_accounts (JObj [(''items'', JArr
          [JObj [(''id'', JStr ''A1''), (''childLink'', JObj [])],
           JObj [(''id'', JStr ''A2''), (''childLink'', JObj [])]])])) @
      [Request (WebpropertiesList (JStr ''A1'')),
       Print [Lit ''Arg, there was an API error : '', Str (JInt 403),
              Lit '' : '', Str (JStr ''insufficient permission'')]], Inr ())"
proof -
  note run = main_reports_error
    [of "WebpropertiesList (JStr ''A1'')" failing_service
        "HttpError 403 ''insufficient permission''" 403 "''insufficient permission''"
        "JObj [(''items'', JArr
          [JObj [(''id'', JStr ''A1''), (''childLink'', JObj [])],
           JObj [(''id'', JStr ''A2''), (''childLink'', JObj [])]])]" "JStr ''A1''"]
  have made: "Request (WebpropertiesList (JStr ''A1''))
      \<in> set (fst (traverse_hiearchy failing_service))"
    by (simp add: in_requests failing_requests)
  have refused: "failing_service (WebpropertiesList (JStr ''A1'')) =
      Inl (HttpError 403 ''insufficient permission'')"
    by (simp add: failing_service_def)
  have accounts: "failing_service AccountsList = Inr (JObj [(''items'', JArr
          [JObj [(''id'', JStr ''A1''), (''childLink'', JObj [])],
           JObj [(''id'', JStr ''A2''), (''childLink'', JObj [])]])])"
    by (simp add: failing_service_def example_service_def)
  have is_caught: "caught (HttpError 403 ''insufficient permission'')"
    by simp
  from run made refused is_caught
  have normal: "snd (main failing_service) = Inr ()"
    and stops: "last (fst (traverse_hiearchy failing_service)) =
      Request (WebpropertiesList (JStr ''A1''))"
    and one: "filter is_diagnostic (fst (main failing_service)) =
      fst (handler (HttpError 403 ''insufficient permission''))"
    by blast+
  from one have line: "filter is_diagnostic (fst (main failing_service)) =
     [Print [Lit ''Arg, there was an API error : '', Str (JInt 403),
             Lit '' : '', Str (JStr ''insufficient permission'')]]"
    by (simp add: print_def)
  from run accounts made refused
  have whole: "main failing_service =
     (Request AccountsList #
      fst (print_accounts (JObj [(''items'', JArr
          [JObj [(''id'', JStr ''A1''), (''childLink'', JObj [])],
           JObj [(''id'', JStr ''A2''), (''childLink'', JObj [])]])])) @
      [Request (WebpropertiesList (JStr ''A1'')),
       Print [Lit ''Arg, there was an API error : '', Str (JInt 403),
              Lit '' : '', Str (JStr ''insufficient permission'')]], Inr ())"
    by blast
  show ?thesis
    by (intro conjI made refused is_caught normal stops line whole)
qed

text \<open>
  C6. In a run in which no exception is raised, the segments list call is made
  after everything the hierarchy walk does and is followed by the output of
  the segments formatter for its response; neither the call nor the header of
  the segments section occurs before, and the header is printed once. When the
  accounts response has no items, the only calls made are the accounts call
  and the segments call.
\<close>

theorem segments_listed_after_walk:
  "(snd (traverse_hiearchy s) = Inr () \<longrightarrow>
      (\<exists>walk segments. s SegmentsList = Inr segments \<and>
         fst (traverse_hiearchy s) =
           walk @ Request SegmentsList # fst (print_segments segments) \<and>
         list_all (\<lambda>e. e \<notin> set segments_events) walk \<and>
         filter (\<lambda>e. e \<in> set segments_events) (fst (print_segments segments)) =
           [Print [Lit ''------ Segments Collection -------'']])) \<and>
   (s AccountsList = Inr (JObj r) \<longrightarrow>
    (map_of r ''items'' = None \<or> map_of r ''items'' = Some (JArr [])) \<longrightarrow>
      requests (fst (traverse_hiearchy s)) = [AccountsList, SegmentsList])"
proof (intro conjI impI)
  assume "snd (traverse_hiearchy s) = Inr ()"
  then show "\<exists>walk segments. s SegmentsList = Inr segments \<and>
         fst (traverse_hiearchy s) =
           walk @ Request SegmentsList # fst (print_segments segments) \<and>
         list_all (\<lambda>e. e \<notin> set segments_events) walk \<and>
         filter (\<lambda>e. e \<in> set segments_events) (fst (print_segments segments)) =
           [Print [Lit ''------ Segments Collection -------'']]"
    using segments_after_walk [of s] segments_header_once by auto
next
  assume "s AccountsList = Inr (JObj r)"
    and "map_of r ''items'' = None \<or> map_of r ''items'' = Some (JArr [])"
  then show "requests (fst (traverse_hiearchy s)) = [AccountsList, SegmentsList]"
    by (rule no_items_requests)
qed

theorem segments_listed_after_walk_witness:
  "snd (traverse_hiearchy example_service) = Inr () \<and>
   (\<exists>walk segments. example_service SegmentsList = Inr segments \<and>
      fst (traverse_hiearchy example_service) =
        walk @ Request SegmentsList # fst (print_segments segments) \<and>
      list_all (\<lambda>e. e \<notin> set segments_events) walk \<and>
      filter (\<lambda>e. e \<in> set segments_events) (fst (print_segments segments)) =
        [Print [Lit ''------ Segments Collection -------'']]) \<and>
   requests (fst (traverse_hiearchy (\<lambda>q. Inr (JObj [])))) = [AccountsList, SegmentsList]"
  using segments_listed_after_walk [of example_service "[]"]
    segments_listed_after_walk [of "\<lambda>q. Inr (JObj [])" "[]"]
  by (simp add: example_requests)

text \<open>
  C10. The run depends on the service only through its answers to the calls
  that are made: two services that answer every call of the traversal alike
  produce the same events and the same result, for the traversal and for
  \<^verbatim>\<open>main\<close>.
\<close>

theorem traversal_deterministic:
  "(\<forall>q. Request q \<in> set (fst (traverse_hiearchy s1)) \<longrightarrow> s1 q = s2 q) \<Longrightarrow>
   traverse_hiearchy s1 = traverse_hiearchy s2 \<and> main s1 = main s2"
  using traverse_agree [of s1 s2] main_agree [of s1 s2] by (simp add: agree_def)

theorem traversal_deterministic_witness:
  "example_service (WebpropertiesList (JStr ''A2'')) \<noteq>
     (example_service (WebpropertiesList (JStr ''A2'') := Inl KeyError))
       (WebpropertiesList (JStr ''A2'')) \<and>
   traverse_hiearchy example_service =
     traverse_hiearchy (example_service (WebpropertiesList (JStr ''A2'') := Inl KeyError)) \<and>
   main example_service =
     main (example_service (WebpropertiesList (JStr ''A2'') := Inl KeyError))"
proof (intro conjI)
  show "example_service (WebpropertiesList (JStr ''A2'')) \<noteq>
     (example_service (WebpropertiesList (JStr ''A2'') := Inl KeyError))
       (WebpropertiesList (JStr ''A2''))"
    by (simp add: example_service_def)
  have "\<forall>q. Request q \<in> set (fst (traverse_hiearchy example_service)) \<longrightarrow>
          example_service q =
          (example_service (WebpropertiesList (JStr ''A2'') := Inl KeyError)) q"
    by (auto simp: in_requests example_requests)
  from traversal_deterministic [OF this]
  show "traverse_hiearchy example_service =
     traverse_hiearchy (example_service (WebpropertiesList (JStr ''A2'') := Inl KeyError))"
    and "main example_service =
     main (example_service (WebpropertiesList (JStr ''A2'') := Inl KeyError))"
    by blast+
qed

end
